theory Spec2Isabelle
  imports Complex_Main "HOL-Library.AList"
begin

section \<open>API objects (package api)\<close>

text \<open>
  The Go structs of package \<open>api\<close> as records. Go maps with string keys
  (\<open>Labels\<close>, \<open>NodeSelector\<close>, \<open>ResourceList\<close>) are association lists read with
  \<open>map_of\<close>; \<open>time.Time\<close> values are the integer the wall clock returned
  (\<open>UnixNano\<close>). Fields that no modelled function reads or writes (annotations,
  generation, ports, probes, volumes, addresses, ...) are left out.
\<close>

record TypeMeta =
  Kind :: string
  APIVersion :: string

record OwnerReference =
  ref_APIVersion :: string
  ref_Kind :: string
  ref_Name :: string
  ref_UID :: string

record ObjectMeta =
  Name :: string
  Namespace :: string
  UID :: string
  ResourceVersion :: string
  CreationTimestamp :: int
  Labels :: "(string \<times> string) list"
  OwnerReferences :: "OwnerReference list"

record Container =
  c_Name :: string
  c_Image :: string
  c_Requests :: "(string \<times> string) list"

record PodSpec =
  Containers :: "Container list"
  NodeName :: string
  NodeSelector :: "(string \<times> string) list"

record PodCondition =
  pc_Type :: string
  pc_Status :: string
  pc_LastTransitionTime :: int
  pc_Reason :: string
  pc_Message :: string

record PodStatus =
  Phase :: string
  Conditions :: "PodCondition list"

record Pod =
  pod_type :: TypeMeta
  pod_meta :: ObjectMeta
  pod_spec :: PodSpec
  pod_status :: PodStatus

record NodeCondition =
  nc_Type :: string
  nc_Status :: string

record NodeStatus =
  Allocatable :: "(string \<times> string) list"
  node_Conditions :: "NodeCondition list"

record Node =
  node_type :: TypeMeta
  node_meta :: ObjectMeta
  node_status :: NodeStatus

record PodTemplateSpec =
  tmpl_meta :: ObjectMeta
  tmpl_spec :: PodSpec

text \<open>
  \<open>ReplicaSetSpec\<close> and \<open>DeploymentSpec\<close> have the same three fields; \<open>Replicas\<close> is
  an \<open>int32\<close>, kept as an \<open>int\<close> with the wrap-around of its arithmetic written out
  where the controllers compute with it. \<open>Selector\<close> is a pointer to a label selector:
  \<open>None\<close> is nil, \<open>Some m\<close> a selector whose \<open>MatchLabels\<close> map is \<open>m\<close>.
\<close>

record ReplicaSetSpec =
  Replicas :: int
  Selector :: "(string \<times> string) list option"
  Template :: PodTemplateSpec

record ReplicaSetStatus =
  st_Replicas :: int
  st_ReadyReplicas :: int
  st_AvailableReplicas :: int

record ReplicaSet =
  rs_type :: TypeMeta
  rs_meta :: ObjectMeta
  rs_spec :: ReplicaSetSpec
  rs_status :: ReplicaSetStatus

record Deployment =
  dep_type :: TypeMeta
  dep_meta :: ObjectMeta
  dep_spec :: ReplicaSetSpec
  dep_status :: ReplicaSetStatus

definition PodPending :: string where "PodPending = ''Pending''"
definition PodScheduled :: string where "PodScheduled = ''Scheduled''"
definition PodRunning :: string where "PodRunning = ''Running''"

section \<open>ReplicaSet controller: ownership test\<close>

text \<open>
  \<open>podBelongsToReplicaSet\<close> walks the owner references of the pod and returns true at
  the first one whose kind is \<open>ReplicaSet\<close> and whose name is the ReplicaSet's name.
\<close>

fun ownerRefsMatch :: "OwnerReference list \<Rightarrow> ReplicaSet \<Rightarrow> bool" where
  "ownerRefsMatch [] rs = False"
| "ownerRefsMatch (ownerRef # rest) rs =
     (if ref_Kind ownerRef = ''ReplicaSet'' \<and> ref_Name ownerRef = Name (rs_meta rs)
      then True else ownerRefsMatch rest rs)"

definition podBelongsToReplicaSet :: "Pod \<Rightarrow> ReplicaSet \<Rightarrow> bool" where
  "podBelongsToReplicaSet pod replicaSet =
     ownerRefsMatch (OwnerReferences (pod_meta pod)) replicaSet"


text \<open>
  The ownership test as the specification words it: some owner reference has kind
  \<open>ReplicaSet\<close>, the ReplicaSet's name and the ReplicaSet's UID.
\<close>

definition spec_ownedByNameAndUID :: "Pod \<Rightarrow> ReplicaSet \<Rightarrow> bool" where
  "spec_ownedByNameAndUID pod replicaSet =
     list_ex (\<lambda>ownerRef. ref_Kind ownerRef = ''ReplicaSet''
                \<and> ref_Name ownerRef = Name (rs_meta replicaSet)
                \<and> ref_UID ownerRef = UID (rs_meta replicaSet))
       (OwnerReferences (pod_meta pod))"

text \<open>Concrete objects used to evaluate the definitions.\<close>

definition emptyMeta :: ObjectMeta where
  "emptyMeta = \<lparr>Name = [], Namespace = [], UID = [], ResourceVersion = [],
     CreationTimestamp = 0, Labels = [], OwnerReferences = []\<rparr>"

definition emptyPodSpec :: PodSpec where
  "emptyPodSpec = \<lparr>Containers = [], NodeName = [], NodeSelector = []\<rparr>"

definition nginxSpec :: PodSpec where
  "nginxSpec = \<lparr>Containers = [\<lparr>c_Name = ''nginx'', c_Image = ''nginx:1.25'', c_Requests = []\<rparr>],
     NodeName = [], NodeSelector = []\<rparr>"

definition mkReplicaSet :: "string \<Rightarrow> string \<Rightarrow> string \<Rightarrow> int \<Rightarrow> PodSpec \<Rightarrow> ReplicaSet" where
  "mkReplicaSet ns name uid n spec =
     \<lparr>rs_type = \<lparr>Kind = ''ReplicaSet'', APIVersion = ''v1alpha1''\<rparr>,
      rs_meta = emptyMeta\<lparr>Name := name, Namespace := ns, UID := uid\<rparr>,
      rs_spec = \<lparr>Replicas = n, Selector = Some [(''app'', ''nginx'')],
                 Template = \<lparr>tmpl_meta = emptyMeta\<lparr>Labels := [(''app'', ''nginx'')]\<rparr>,
                              tmpl_spec = spec\<rparr>\<rparr>,
      rs_status = \<lparr>st_Replicas = 0, st_ReadyReplicas = 0, st_AvailableReplicas = 0\<rparr>\<rparr>"

definition mkOwnedPod :: "string \<Rightarrow> string \<Rightarrow> string \<Rightarrow> string \<Rightarrow> string \<Rightarrow> Pod" where
  "mkOwnedPod ns name phase ownerName ownerUID =
     \<lparr>pod_type = \<lparr>Kind = ''Pod'', APIVersion = ''v1alpha1''\<rparr>,
      pod_meta = emptyMeta\<lparr>Name := name, Namespace := ns,
        OwnerReferences := [\<lparr>ref_APIVersion = ''v1alpha1'', ref_Kind = ''ReplicaSet'',
                             ref_Name = ownerName, ref_UID = ownerUID\<rparr>]\<rparr>,
      pod_spec = nginxSpec,
      pod_status = \<lparr>Phase = phase, Conditions = []\<rparr>\<rparr>"

section \<open>The store contract (package store)\<close>

text \<open>
  \<open>store.Object\<close> is an interface implemented by pointers to the four API structs. The
  dynamic type (what a type assertion \<open>obj.(*api.Pod)\<close> tests) is the constructor; the
  kind string the store files an object under is the \<open>Kind\<close> field, which is
  independent of the constructor.
\<close>

datatype Object = PodObj Pod | NodeObj Node | ReplicaSetObj ReplicaSet | DeploymentObj Deployment

fun typeMeta :: "Object \<Rightarrow> TypeMeta" where
  "typeMeta (PodObj p) = pod_type p"
| "typeMeta (NodeObj n) = node_type n"
| "typeMeta (ReplicaSetObj r) = rs_type r"
| "typeMeta (DeploymentObj d) = dep_type d"

fun objectMeta :: "Object \<Rightarrow> ObjectMeta" where
  "objectMeta (PodObj p) = pod_meta p"
| "objectMeta (NodeObj n) = node_meta n"
| "objectMeta (ReplicaSetObj r) = rs_meta r"
| "objectMeta (DeploymentObj d) = dep_meta d"

definition GetKind :: "Object \<Rightarrow> string" where
  "GetKind obj = Kind (typeMeta obj)"

definition GetName :: "Object \<Rightarrow> string" where
  "GetName obj = Name (objectMeta obj)"

definition GetNamespace :: "Object \<Rightarrow> string" where
  "GetNamespace obj = Namespace (objectMeta obj)"

definition GetResourceVersion :: "Object \<Rightarrow> string" where
  "GetResourceVersion obj = ResourceVersion (objectMeta obj)"

fun SetResourceVersion :: "string \<Rightarrow> Object \<Rightarrow> Object" where
  "SetResourceVersion v (PodObj p) = PodObj (p\<lparr>pod_meta := (pod_meta p)\<lparr>ResourceVersion := v\<rparr>\<rparr>)"
| "SetResourceVersion v (NodeObj n) = NodeObj (n\<lparr>node_meta := (node_meta n)\<lparr>ResourceVersion := v\<rparr>\<rparr>)"
| "SetResourceVersion v (ReplicaSetObj r) = ReplicaSetObj (r\<lparr>rs_meta := (rs_meta r)\<lparr>ResourceVersion := v\<rparr>\<rparr>)"
| "SetResourceVersion v (DeploymentObj d) = DeploymentObj (d\<lparr>dep_meta := (dep_meta d)\<lparr>ResourceVersion := v\<rparr>\<rparr>)"

fun SetCreationTimestamp :: "int \<Rightarrow> Object \<Rightarrow> Object" where
  "SetCreationTimestamp t (PodObj p) = PodObj (p\<lparr>pod_meta := (pod_meta p)\<lparr>CreationTimestamp := t\<rparr>\<rparr>)"
| "SetCreationTimestamp t (NodeObj n) = NodeObj (n\<lparr>node_meta := (node_meta n)\<lparr>CreationTimestamp := t\<rparr>\<rparr>)"
| "SetCreationTimestamp t (ReplicaSetObj r) = ReplicaSetObj (r\<lparr>rs_meta := (rs_meta r)\<lparr>CreationTimestamp := t\<rparr>\<rparr>)"
| "SetCreationTimestamp t (DeploymentObj d) = DeploymentObj (d\<lparr>dep_meta := (dep_meta d)\<lparr>CreationTimestamp := t\<rparr>\<rparr>)"

datatype EventType = Added | Modified | Deleted | Error

record WatchEvent =
  ev_Type :: EventType
  ev_Object :: Object

text \<open>
  Go errors are built with \<open>fmt.Errorf\<close>; the model keeps one tag for each message
  format. \<open>NilDereference\<close> and \<open>IndexOutOfRange\<close> stand for the run-time panics of a
  method call on a nil interface and of \<open>xs[0]\<close> on an empty slice.
\<close>

datatype error =
    AlreadyExists
  | NoObjectsOfKind
  | NotFound
  | NoSuitableNode
  | NoReplicaSetForDeployment
  | NilDereference
  | IndexOutOfRange

subsection \<open>Decimal rendering of the clock\<close>

text \<open>
  \<open>fmt.Sprintf("%d", n)\<close> and \<open>strconv.FormatInt(n, 10)\<close>: the decimal digits of
  \<open>n\<close>, with a leading minus sign when \<open>n\<close> is negative.
\<close>

definition digit_char :: "nat \<Rightarrow> char" where
  "digit_char d = ''0123456789'' ! d"

function digits :: "nat \<Rightarrow> string" where
  "digits n = (if n < 10 then [digit_char n] else digits (n div 10) @ [digit_char (n mod 10)])"
  by pat_completeness auto
termination
  by (relation "measure (\<lambda>n. n)") auto

declare digits.simps [simp del]

definition FormatInt :: "int \<Rightarrow> string" where
  "FormatInt i = (if i < 0 then CHR ''-'' # digits (nat (- i)) else digits (nat i))"




subsection \<open>The in-memory store (pkg/store/memory.go)\<close>

text \<open>
  \<open>objects\<close> maps a kind to the map from \<open>namespace/name\<close> keys to objects. The inner Go
  map is an association list with distinct keys: its order is the order in which a
  \<open>range\<close> loop over the map returns the entries. Go fixes no such order and may return
  another one on the next loop, so an equation between two listings of the store is to
  be read up to the order of the entries. The store keeps the pointers it is given and
  hands them out again; here an object is a value, and a caller that changes an object
  it got from the store and then calls \<open>Update\<close> with it is one step from the store before
  to the store after. What another goroutine could read between the assignment and the
  \<open>Update\<close>, and what a queued event shows when it is received later, is stated on the
  store with its pointers (\<open>heapStore\<close>, further down); here a queued event keeps the
  object as it was when it was sent. \<open>watchers\<close> maps \<open>kind/namespace\<close> to
  the slice of watchers registered under that key. A watcher's \<open>events\<close> channel is the
  list of events sent and not yet received, with the capacity it was made with
  (\<open>options.WatchBufferSize\<close>).
\<close>

record watcher =
  events :: "WatchEvent list"
  events_cap :: nat
  w_kind :: string
  w_ns :: string

record memoryStore =
  objects :: "string \<rightharpoonup> (string \<times> Object) list"
  watchers :: "string \<rightharpoonup> watcher list"
  WatchBufferSize :: nat

definition NewMemoryStore :: "nat \<Rightarrow> memoryStore" where
  "NewMemoryStore bufSize = \<lparr>objects = Map.empty, watchers = Map.empty, WatchBufferSize = bufSize\<rparr>"

definition objectKey :: "string \<Rightarrow> string \<Rightarrow> string" where
  "objectKey namespace name = namespace @ ''/'' @ name"

text \<open>
  The non-blocking send \<open>select { case w.events <- ev: default: }\<close>: the event is
  queued when the channel has room and dropped otherwise.
\<close>

definition trySend :: "WatchEvent \<Rightarrow> watcher \<Rightarrow> watcher" where
  "trySend ev w = (if length (events w) < events_cap w then w\<lparr>events := events w @ [ev]\<rparr> else w)"

definition notifyWatchers :: "EventType \<Rightarrow> Object \<Rightarrow> memoryStore \<Rightarrow> memoryStore" where
  "notifyWatchers eventType obj s =
     (let key = GetKind obj @ ''/'' @ GetNamespace obj
      in case watchers s key of
           None \<Rightarrow> s
         | Some ws \<Rightarrow> s\<lparr>watchers := (watchers s)(key \<mapsto>
                         map (trySend \<lparr>ev_Type = eventType, ev_Object = obj\<rparr>) ws)\<rparr>)"

text \<open>
  \<open>Create\<close> reads the clock twice (resource-version, creation timestamp); the two
  readings are the arguments \<open>now1\<close> and \<open>now2\<close>. It returns the object as stamped (the
  caller's object is mutated through the pointer) and the new store.
\<close>

definition Create :: "int \<Rightarrow> int \<Rightarrow> Object \<Rightarrow> memoryStore \<Rightarrow> error + (Object \<times> memoryStore)" where
  "Create now1 now2 obj s =
     (let kind = GetKind obj;
          key = objectKey (GetNamespace obj) (GetName obj);
          m = (case objects s kind of None \<Rightarrow> [] | Some m \<Rightarrow> m)
      in if map_of m key \<noteq> None then Inl AlreadyExists
         else let obj' = SetCreationTimestamp now2 (SetResourceVersion (FormatInt now1) obj);
                  s' = s\<lparr>objects := (objects s)(kind \<mapsto> AList.update key obj' m)\<rparr>
              in Inr (obj', notifyWatchers Added obj' s'))"

definition Get :: "string \<Rightarrow> string \<Rightarrow> string \<Rightarrow> memoryStore \<Rightarrow> error + Object" where
  "Get kind namespace name s =
     (case objects s kind of
        None \<Rightarrow> Inl NoObjectsOfKind
      | Some m \<Rightarrow> (case map_of m (objectKey namespace name) of
                     None \<Rightarrow> Inl NotFound
                   | Some obj \<Rightarrow> Inr obj))"

text \<open>
  The test both \<open>List\<close> and \<open>Watch\<close> apply to a key for a namespace:
  \<open>len(key) > len(namespace)+1 && key[:len(namespace)] == namespace &&
  key[len(namespace)] == '/'\<close>.
\<close>

definition keyInNamespace :: "string \<Rightarrow> string \<Rightarrow> bool" where
  "keyInNamespace key namespace =
     (length key > length namespace + 1 \<and> take (length namespace) key = namespace
      \<and> key ! length namespace = CHR ''/'')"

text \<open>\<open>List\<close> of the in-memory store never fails; its error result is always nil.\<close>

definition List :: "string \<Rightarrow> string \<Rightarrow> memoryStore \<Rightarrow> Object list" where
  "List kind namespace s =
     (case objects s kind of
        None \<Rightarrow> []
      | Some m \<Rightarrow> if namespace = [] then map snd m
                  else map snd (filter (\<lambda>(key, obj). keyInNamespace key namespace) m))"

definition Update :: "int \<Rightarrow> Object \<Rightarrow> memoryStore \<Rightarrow> error + (Object \<times> memoryStore)" where
  "Update now obj s =
     (let kind = GetKind obj;
          key = objectKey (GetNamespace obj) (GetName obj)
      in case objects s kind of
           None \<Rightarrow> Inl NoObjectsOfKind
         | Some m \<Rightarrow>
             if map_of m key = None then Inl NotFound
             else let obj' = SetResourceVersion (FormatInt now) obj;
                      s' = s\<lparr>objects := (objects s)(kind \<mapsto> AList.update key obj' m)\<rparr>
                  in Inr (obj', notifyWatchers Modified obj' s'))"

definition Delete :: "string \<Rightarrow> string \<Rightarrow> string \<Rightarrow> memoryStore \<Rightarrow> error + memoryStore" where
  "Delete kind namespace name s =
     (case objects s kind of
        None \<Rightarrow> Inl NoObjectsOfKind
      | Some m \<Rightarrow>
          (let key = objectKey namespace name
           in case map_of m key of
                None \<Rightarrow> Inl NotFound
              | Some obj \<Rightarrow>
                  (let s1 = notifyWatchers Deleted obj s;
                       m' = AList.delete key m
                   in Inr (s1\<lparr>objects := (if m' = [] then (objects s1)(kind := None)
                                            else (objects s1)(kind \<mapsto> m'))\<rparr>))))"

text \<open>Concrete store contents used to evaluate the store operations.\<close>

definition plainPod :: "string \<Rightarrow> string \<Rightarrow> string \<Rightarrow> int \<Rightarrow> Pod" where
  "plainPod ns name rv created =
     \<lparr>pod_type = \<lparr>Kind = ''Pod'', APIVersion = ''v1alpha1''\<rparr>,
      pod_meta = emptyMeta\<lparr>Name := name, Namespace := ns, ResourceVersion := rv,
                           CreationTimestamp := created\<rparr>,
      pod_spec = nginxSpec,
      pod_status = \<lparr>Phase = ''Pending'', Conditions = []\<rparr>\<rparr>"

definition storeWith :: "string \<Rightarrow> (string \<times> Object) list \<Rightarrow> memoryStore" where
  "storeWith kind entries = (NewMemoryStore 100)\<lparr>objects := [kind \<mapsto> entries]\<rparr>"

section \<open>The scheduler (pkg/scheduler/scheduler.go)\<close>

text \<open>
  \<open>parseFloat\<close> is \<open>fmt.Sscanf(s, "%f", &result)\<close>, a library call: it is a parameter
  \<open>pf\<close> of the model, \<open>None\<close> standing for a non-nil error. Scores and resource
  amounts are \<open>float64\<close> in the source and exact reals here; the theorems below hold for
  every \<open>pf\<close> and do not depend on rounding.
\<close>

type_synonym sscanf = "string \<Rightarrow> real option"

definition parseCPU :: "sscanf \<Rightarrow> string \<Rightarrow> real option" where
  "parseCPU pf cpu =
     (if cpu = [] then Some 0
      else if length cpu > 1 \<and> last cpu = CHR ''m''
           then (case pf (butlast cpu) of Some v \<Rightarrow> Some (v / 1000) | None \<Rightarrow> pf cpu)
           else pf cpu)"

definition parseMemory :: "sscanf \<Rightarrow> string \<Rightarrow> real option" where
  "parseMemory pf memory =
     (if memory = [] then Some 0
      else if length memory > 2
           then (let suffix = drop (length memory - 2) memory
                 in case pf (take (length memory - 2) memory) of
                      None \<Rightarrow> None
                    | Some v \<Rightarrow>
                        if suffix = ''Ki'' then Some (v * 1024)
                        else if suffix = ''Mi'' then Some (v * 1024 * 1024)
                        else if suffix = ''Gi'' then Some (v * 1024 * 1024 * 1024)
                        else pf memory)
           else pf memory)"

record ScheduledPod =
  sp_Pod :: Pod
  sp_NodeName :: string
  sp_Time :: int
  sp_Status :: string

text \<open>The scheduler's \<open>scheduledPods\<close> map, keyed by \<open>namespace/name\<close>.\<close>

type_synonym scheduledPods = "(string \<times> ScheduledPod) list"

definition isNodeReady :: "Node \<Rightarrow> bool" where
  "isNodeReady node =
     list_ex (\<lambda>condition. nc_Type condition = ''Ready'' \<and> nc_Status condition = ''True'')
       (node_Conditions (node_status node))"

definition matchesNodeSelector :: "Pod \<Rightarrow> Node \<Rightarrow> bool" where
  "matchesNodeSelector pod node =
     (if length (NodeSelector (pod_spec pod)) = 0 then True
      else list_all (\<lambda>(key, value). map_of (Labels (node_meta node)) key = Some value)
             (NodeSelector (pod_spec pod)))"

definition matchesTaintsAndTolerations :: "Pod \<Rightarrow> Node \<Rightarrow> bool" where
  "matchesTaintsAndTolerations pod node = True"

text \<open>The loop of \<open>hasSufficientResources\<close> that adds up the requests of the containers.\<close>

fun totalRequests :: "sscanf \<Rightarrow> Container list \<Rightarrow> real \<times> real \<Rightarrow> real \<times> real" where
  "totalRequests pf [] acc = acc"
| "totalRequests pf (container # rest) (totalCPU, totalMemory) =
     (let totalCPU' = (case map_of (c_Requests container) ''cpu'' of
                         None \<Rightarrow> totalCPU
                       | Some cpu \<Rightarrow> (case parseCPU pf cpu of
                                        Some v \<Rightarrow> totalCPU + v | None \<Rightarrow> totalCPU));
          totalMemory' = (case map_of (c_Requests container) ''memory'' of
                            None \<Rightarrow> totalMemory
                          | Some memory \<Rightarrow> (case parseMemory pf memory of
                                              Some v \<Rightarrow> totalMemory + v | None \<Rightarrow> totalMemory))
      in totalRequests pf rest (totalCPU', totalMemory'))"

definition hasSufficientResources :: "sscanf \<Rightarrow> Pod \<Rightarrow> Node \<Rightarrow> bool" where
  "hasSufficientResources pf pod node =
     (let (totalCPU, totalMemory) = totalRequests pf (Containers (pod_spec pod)) (0, 0);
          cpuShort = (totalCPU > 0 \<and>
             (case map_of (Allocatable (node_status node)) ''cpu'' of
                None \<Rightarrow> False
              | Some nodeCPU \<Rightarrow> (case parseCPU pf nodeCPU of
                                   None \<Rightarrow> False
                                 | Some availableCPU \<Rightarrow> totalCPU > availableCPU)));
          memoryShort = (totalMemory > 0 \<and>
             (case map_of (Allocatable (node_status node)) ''memory'' of
                None \<Rightarrow> False
              | Some nodeMemory \<Rightarrow> (case parseMemory pf nodeMemory of
                                      None \<Rightarrow> False
                                    | Some availableMemory \<Rightarrow> totalMemory > availableMemory)))
      in if cpuShort then False else if memoryShort then False else True)"

definition calculateNodeScore :: "sscanf \<Rightarrow> scheduledPods \<Rightarrow> Pod \<Rightarrow> Node \<Rightarrow> real" where
  "calculateNodeScore pf sched pod node =
     (let score0 = (0 :: real);
          score1 = (case map_of (Allocatable (node_status node)) ''cpu'' of
                      None \<Rightarrow> score0
                    | Some allocatable \<Rightarrow> (case parseCPU pf allocatable of
                                             Some cpu \<Rightarrow> score0 + cpu | None \<Rightarrow> score0));
          score2 = (case map_of (Allocatable (node_status node)) ''memory'' of
                      None \<Rightarrow> score1
                    | Some allocatable \<Rightarrow> (case parseMemory pf allocatable of
                                             Some memory \<Rightarrow> score1 + memory / (1024 * 1024 * 1024)
                                           | None \<Rightarrow> score1));
          nodePodCount = length (filter (\<lambda>(key, scheduledPod).
                                   sp_NodeName scheduledPod = Name (node_meta node)) sched)
      in score2 - real nodePodCount)"

text \<open>
  First pass of \<open>findBestNode\<close>: the objects that are nodes and pass the four filter
  predicates, in the order given.
\<close>

fun suitableNodes :: "sscanf \<Rightarrow> Pod \<Rightarrow> Object list \<Rightarrow> Node list" where
  "suitableNodes pf pod [] = []"
| "suitableNodes pf pod (NodeObj node # rest) =
     (if \<not> isNodeReady node then suitableNodes pf pod rest
      else if \<not> matchesNodeSelector pod node then suitableNodes pf pod rest
      else if \<not> hasSufficientResources pf pod node then suitableNodes pf pod rest
      else if \<not> matchesTaintsAndTolerations pod node then suitableNodes pf pod rest
      else node # suitableNodes pf pod rest)"
| "suitableNodes pf pod (obj # rest) = suitableNodes pf pod rest"

text \<open>
  Second pass: \<open>bestNode\<close> starts as nil and \<open>bestScore\<close> as 0; a node replaces the best
  one only when its score is strictly greater than \<open>bestScore\<close>.
\<close>

fun scoreNodes :: "sscanf \<Rightarrow> scheduledPods \<Rightarrow> Pod \<Rightarrow> Node list \<Rightarrow> Object option \<times> real
                    \<Rightarrow> Object option \<times> real" where
  "scoreNodes pf sched pod [] best = best"
| "scoreNodes pf sched pod (node # rest) (bestNode, bestScore) =
     (let score = calculateNodeScore pf sched pod node
      in if score > bestScore then scoreNodes pf sched pod rest (Some (NodeObj node), score)
         else scoreNodes pf sched pod rest (bestNode, bestScore))"

text \<open>
  \<open>findBestNode\<close> returns \<open>(store.Object, error)\<close>: \<open>Inl\<close> is the non-nil error,
  \<open>Inr None\<close> is a nil object returned with a nil error.
\<close>

definition findBestNode :: "sscanf \<Rightarrow> scheduledPods \<Rightarrow> Pod \<Rightarrow> Object list \<Rightarrow> error + Object option" where
  "findBestNode pf sched pod nodes =
     (let suitable = suitableNodes pf pod nodes
      in if length suitable = 0 then Inl NoSuitableNode
         else Inr (fst (scoreNodes pf sched pod suitable (None, 0))))"

text \<open>
  \<open>schedulePod\<close>. The state is the scheduler's map, the store and the number of clock
  readings taken so far; \<open>clk\<close> gives the successive readings of \<open>time.Now()\<close>. The
  call \<open>node.GetName()\<close> on a nil \<open>store.Object\<close> panics before anything is written.
  The result is the returned error (\<open>None\<close> for nil) and the new state.
\<close>

type_synonym clock = "nat \<Rightarrow> int"

definition bindPod :: "Pod \<Rightarrow> string \<Rightarrow> int \<Rightarrow> Pod" where
  "bindPod pod nodeName now =
     pod\<lparr>pod_spec := (pod_spec pod)\<lparr>NodeName := nodeName\<rparr>,
         pod_status := (pod_status pod)\<lparr>Phase := PodScheduled,
           Conditions := Conditions (pod_status pod) @
             [\<lparr>pc_Type = ''PodScheduled'', pc_Status = ''True'', pc_LastTransitionTime = now,
               pc_Reason = ''Scheduled'',
               pc_Message = ''Pod scheduled to node '' @ nodeName\<rparr>]\<rparr>\<rparr>"

definition schedulePod :: "clock \<Rightarrow> sscanf \<Rightarrow> Pod \<Rightarrow> Object list
    \<Rightarrow> scheduledPods \<times> memoryStore \<times> nat \<Rightarrow> error option \<times> scheduledPods \<times> memoryStore \<times> nat" where
  "schedulePod clk pf pod nodes st =
     (case st of (sched, s, t) \<Rightarrow>
        (case findBestNode pf sched pod nodes of
           Inl err \<Rightarrow> (Some err, sched, s, t)
         | Inr None \<Rightarrow> (Some NilDereference, sched, s, t)
         | Inr (Some node) \<Rightarrow>
             (let pod1 = bindPod pod (GetName node) (clk t)
              in case Update (clk (t + 1)) (PodObj pod1) s of
                   Inl err \<Rightarrow> (Some err, sched, s, t + 1)
                 | Inr (obj', s') \<Rightarrow>
                     (let pod2 = (case obj' of PodObj p \<Rightarrow> p | _ \<Rightarrow> pod1);
                          tracked = \<lparr>sp_Pod = pod2, sp_NodeName = GetName node,
                                     sp_Time = clk (t + 2), sp_Status = ''Scheduled''\<rparr>
                      in (None,
                          AList.update (objectKey (Namespace (pod_meta pod)) (Name (pod_meta pod)))
                            tracked sched,
                          s', t + 3)))))"

text \<open>
  \<open>processUnscheduledPods\<close>: list pods and nodes once, keep the pods with empty
  \<open>NodeName\<close> and phase \<open>Pending\<close>, and try each in turn; a failure is logged and the loop
  goes on. The log is returned with the state.
\<close>

fun unscheduledOf :: "Object list \<Rightarrow> Pod list" where
  "unscheduledOf [] = []"
| "unscheduledOf (PodObj pod # rest) =
     (if NodeName (pod_spec pod) = [] \<and> Phase (pod_status pod) = PodPending
      then pod # unscheduledOf rest else unscheduledOf rest)"
| "unscheduledOf (obj # rest) = unscheduledOf rest"

fun scheduleEach :: "clock \<Rightarrow> sscanf \<Rightarrow> Pod list \<Rightarrow> Object list
    \<Rightarrow> scheduledPods \<times> memoryStore \<times> nat \<Rightarrow> error list \<times> scheduledPods \<times> memoryStore \<times> nat" where
  "scheduleEach clk pf [] nodes st = ([], st)"
| "scheduleEach clk pf (pod # rest) nodes st =
     (case schedulePod clk pf pod nodes st of
        (Some NilDereference, st') \<Rightarrow> ([NilDereference], st')
      | (Some err, st') \<Rightarrow> (case scheduleEach clk pf rest nodes st' of
                              (errs, st'') \<Rightarrow> (err # errs, st''))
      | (None, st') \<Rightarrow> scheduleEach clk pf rest nodes st')"

definition processUnscheduledPods :: "clock \<Rightarrow> sscanf
    \<Rightarrow> scheduledPods \<times> memoryStore \<times> nat \<Rightarrow> error list \<times> scheduledPods \<times> memoryStore \<times> nat" where
  "processUnscheduledPods clk pf st =
     (case st of (sched, s, t) \<Rightarrow>
        scheduleEach clk pf (unscheduledOf (List ''Pod'' [] s)) (List ''Node'' [] s) (sched, s, t))"

text \<open>Concrete nodes and a concrete \<open>Sscanf\<close> table used to evaluate the scheduler.\<close>

definition mkNode :: "string \<Rightarrow> (string \<times> string) list \<Rightarrow> (string \<times> string) list \<Rightarrow> Node" where
  "mkNode name labels alloc =
     \<lparr>node_type = \<lparr>Kind = ''Node'', APIVersion = ''v1alpha1''\<rparr>,
      node_meta = emptyMeta\<lparr>Name := name, Labels := labels\<rparr>,
      node_status = \<lparr>Allocatable = alloc,
                     node_Conditions = [\<lparr>nc_Type = ''Ready'', nc_Status = ''True''\<rparr>]\<rparr>\<rparr>"

definition sscanfTable :: sscanf where
  "sscanfTable s = map_of [(''2'', 2), (''4'', 4), (''8'', 8), (''100'', 100), (''128'', 128)] s"

definition tickClock :: clock where
  "tickClock n = 1000 + int n"

definition requestingPod :: "string \<Rightarrow> string \<Rightarrow> string \<Rightarrow> string \<Rightarrow> Pod" where
  "requestingPod ns name cpu memory =
     \<lparr>pod_type = \<lparr>Kind = ''Pod'', APIVersion = ''v1alpha1''\<rparr>,
      pod_meta = emptyMeta\<lparr>Name := name, Namespace := ns\<rparr>,
      pod_spec = \<lparr>Containers = [\<lparr>c_Name = ''nginx'', c_Image = ''nginx:1.25'',
                                  c_Requests = [(''cpu'', cpu), (''memory'', memory)]\<rparr>],
                  NodeName = [], NodeSelector = []\<rparr>,
      pod_status = \<lparr>Phase = ''Pending'', Conditions = []\<rparr>\<rparr>"

section \<open>The API server (package apiserver)\<close>

text \<open>
  A handler takes the path variables, the result of \<open>json.Decode\<close> on the request body
  (\<open>None\<close> when decoding fails) and the store, and returns the HTTP response with the
  new store. A response written without \<open>WriteHeader\<close> has status 200.
\<close>

datatype ResponseBody =
    ErrorText error
  | DecodeErrorText
  | ObjectBody Object
  | PodListBody "Pod list"
  | EmptyBody

record Response =
  StatusCode :: nat
  Body :: ResponseBody

definition generateUID :: "int \<Rightarrow> string" where
  "generateUID now = FormatInt now"

definition createPod :: "clock \<Rightarrow> string \<Rightarrow> Pod option \<Rightarrow> memoryStore \<times> nat
    \<Rightarrow> Response \<times> memoryStore \<times> nat" where
  "createPod clk namespace decoded st =
     (case st of (s, t) \<Rightarrow>
        (case decoded of
           None \<Rightarrow> (\<lparr>StatusCode = 400, Body = DecodeErrorText\<rparr>, s, t)
         | Some pod \<Rightarrow>
             (let pod1 = pod\<lparr>pod_type := \<lparr>Kind = ''Pod'', APIVersion = ''v1alpha1''\<rparr>,
                             pod_meta := (pod_meta pod)\<lparr>Namespace := namespace,
                                                         UID := generateUID (clk t)\<rparr>,
                             pod_status := (pod_status pod)\<lparr>Phase := PodPending\<rparr>\<rparr>
              in case Create (clk (t + 1)) (clk (t + 2)) (PodObj pod1) s of
                   Inl err \<Rightarrow> (\<lparr>StatusCode = 500, Body = ErrorText err\<rparr>, s, t + 1)
                 | Inr (obj', s') \<Rightarrow> (\<lparr>StatusCode = 201, Body = ObjectBody obj'\<rparr>, s', t + 3))))"

text \<open>The loop \<open>if pod, ok := obj.(*api.Pod); ok { podList = append(podList, pod) }\<close>.\<close>

fun podsOf :: "Object list \<Rightarrow> Pod list" where
  "podsOf [] = []"
| "podsOf (PodObj pod # rest) = pod # podsOf rest"
| "podsOf (obj # rest) = podsOf rest"

definition listPods :: "string \<Rightarrow> memoryStore \<Rightarrow> Response" where
  "listPods namespace s =
     \<lparr>StatusCode = 200, Body = PodListBody (podsOf (List ''Pod'' namespace s))\<rparr>"

definition listAllPods :: "memoryStore \<Rightarrow> Response" where
  "listAllPods s =
     \<lparr>StatusCode = 200, Body = PodListBody (podsOf (List ''Pod'' ''default'' s))\<rparr>"

text \<open>The validation minima of the specification for a pod.\<close>

definition spec_validPod :: "Pod \<Rightarrow> bool" where
  "spec_validPod pod =
     (Containers (pod_spec pod) \<noteq> []
      \<and> list_all (\<lambda>c. c_Name c \<noteq> [] \<and> c_Image c \<noteq> []) (Containers (pod_spec pod)))"

definition emptyPod :: "string \<Rightarrow> Pod" where
  "emptyPod name =
     \<lparr>pod_type = \<lparr>Kind = ''Pod'', APIVersion = ''v1alpha1''\<rparr>,
      pod_meta = emptyMeta\<lparr>Name := name\<rparr>,
      pod_spec = emptyPodSpec,
      pod_status = \<lparr>Phase = [], Conditions = []\<rparr>\<rparr>"

section \<open>The ReplicaSet controller (pkg/controller/replicaset.go)\<close>

text \<open>
  \<open>int32(x)\<close>: the conversion to a 32-bit signed integer, and the result of 32-bit
  arithmetic on the exact result \<open>x\<close>.
\<close>

definition int32 :: "int \<Rightarrow> int" where
  "int32 x = (x + 2 ^ 31) mod 2 ^ 32 - 2 ^ 31"

text \<open>
  \<open>createPod\<close>: the pod gets the template's metadata and spec, the name
  \<open><replicaset name>-<UnixNano>\<close>, one owner reference copied from the ReplicaSet and
  the phase \<open>Pending\<close>. The result is the returned error and the new state.
\<close>

definition podFromTemplate :: "ReplicaSet \<Rightarrow> int \<Rightarrow> Pod" where
  "podFromTemplate replicaSet now =
     \<lparr>pod_type = \<lparr>Kind = ''Pod'', APIVersion = ''v1alpha1''\<rparr>,
      pod_meta = (tmpl_meta (Template (rs_spec replicaSet)))
        \<lparr>Name := Name (rs_meta replicaSet) @ ''-'' @ FormatInt now,
         OwnerReferences := [\<lparr>ref_APIVersion = APIVersion (rs_type replicaSet),
                              ref_Kind = Kind (rs_type replicaSet),
                              ref_Name = Name (rs_meta replicaSet),
                              ref_UID = UID (rs_meta replicaSet)\<rparr>]\<rparr>,
      pod_spec = tmpl_spec (Template (rs_spec replicaSet)),
      pod_status = \<lparr>Phase = PodPending, Conditions = []\<rparr>\<rparr>"

definition rs_createPod :: "clock \<Rightarrow> ReplicaSet \<Rightarrow> memoryStore \<times> nat
    \<Rightarrow> error option \<times> memoryStore \<times> nat" where
  "rs_createPod clk replicaSet st =
     (case st of (s, t) \<Rightarrow>
        (case Create (clk (t + 1)) (clk (t + 2)) (PodObj (podFromTemplate replicaSet (clk t))) s of
           Inl err \<Rightarrow> (Some err, s, t + 1)
         | Inr (obj', s') \<Rightarrow> (None, s', t + 3)))"

definition rs_deletePod :: "Pod \<Rightarrow> memoryStore \<Rightarrow> error option \<times> memoryStore" where
  "rs_deletePod pod s =
     (case Delete ''Pod'' (Namespace (pod_meta pod)) (Name (pod_meta pod)) s of
        Inl err \<Rightarrow> (Some err, s)
      | Inr s' \<Rightarrow> (None, s'))"

text \<open>
  The two loops of \<open>ensurePods\<close>. A failed creation or deletion is printed and the loop
  goes on; the printed errors are returned as a list.
\<close>

fun createPods :: "clock \<Rightarrow> ReplicaSet \<Rightarrow> nat \<Rightarrow> memoryStore \<times> nat
    \<Rightarrow> error list \<times> memoryStore \<times> nat" where
  "createPods clk replicaSet 0 st = ([], st)"
| "createPods clk replicaSet (Suc n) st =
     (case rs_createPod clk replicaSet st of
        (res, st') \<Rightarrow>
          (case createPods clk replicaSet n st' of
             (errs, st'') \<Rightarrow> ((case res of None \<Rightarrow> [] | Some err \<Rightarrow> [err]) @ errs, st'')))"

fun deletePods :: "Pod list \<Rightarrow> memoryStore \<Rightarrow> error list \<times> memoryStore" where
  "deletePods [] s = ([], s)"
| "deletePods (pod # rest) s =
     (case rs_deletePod pod s of
        (res, s') \<Rightarrow>
          (case deletePods rest s' of
             (errs, s'') \<Rightarrow> ((case res of None \<Rightarrow> [] | Some err \<Rightarrow> [err]) @ errs, s'')))"

text \<open>
  \<open>ensurePods\<close> lists the pods of all namespaces, keeps those that
  \<open>podBelongsToReplicaSet\<close> accepts, and creates \<open>desired - current\<close> pods or deletes the
  first \<open>current - desired\<close> of the kept pods (the guard \<open>int(i) < len(currentPods)\<close>
  stops at the end of the slice). It returns the printed errors, the kept pods (stored
  in \<open>state.Pods\<close>) and the new state. \<open>List\<close> does not fail, so neither does
  \<open>ensurePods\<close>.
\<close>

definition retainedPods :: "ReplicaSet \<Rightarrow> memoryStore \<Rightarrow> Pod list" where
  "retainedPods replicaSet s =
     filter (\<lambda>pod. podBelongsToReplicaSet pod replicaSet) (podsOf (List ''Pod'' [] s))"

definition ensurePods :: "clock \<Rightarrow> ReplicaSet \<Rightarrow> memoryStore \<times> nat
    \<Rightarrow> error list \<times> Pod list \<times> memoryStore \<times> nat" where
  "ensurePods clk replicaSet st =
     (case st of (s, t) \<Rightarrow>
        (let currentPods = retainedPods replicaSet s;
             desiredReplicas = Replicas (rs_spec replicaSet);
             currentReplicas = int32 (int (length currentPods));
             (errs1, s1, t1) =
               (if currentReplicas < desiredReplicas
                then createPods clk replicaSet (nat (int32 (desiredReplicas - currentReplicas))) (s, t)
                else ([], s, t));
             (errs2, s2) =
               (if currentReplicas > desiredReplicas
                then deletePods (take (nat (int32 (currentReplicas - desiredReplicas))) currentPods) s1
                else ([], s1))
         in (errs1 @ errs2, currentPods, s2, t1)))"

definition updateReplicaSetStatus :: "clock \<Rightarrow> ReplicaSet \<Rightarrow> Pod list \<Rightarrow> memoryStore \<times> nat
    \<Rightarrow> error option \<times> memoryStore \<times> nat" where
  "updateReplicaSetStatus clk replicaSet pods st =
     (case st of (s, t) \<Rightarrow>
        (let readyPods = int32 (int (length (filter (\<lambda>pod. Phase (pod_status pod) = PodRunning) pods)));
             replicaSet' = replicaSet\<lparr>rs_status := (rs_status replicaSet)
               \<lparr>st_Replicas := int32 (int (length pods)),
                st_ReadyReplicas := readyPods,
                st_AvailableReplicas := readyPods\<rparr>\<rparr>
         in case Update (clk t) (ReplicaSetObj replicaSet') s of
              Inl err \<Rightarrow> (Some err, s, t)
            | Inr (obj', s') \<Rightarrow> (None, s', t + 1)))"

text \<open>
  \<open>syncReplicaSet\<close>: the controller's cache entry only carries the kept pods from
  \<open>ensurePods\<close> to \<open>updateReplicaSetStatus\<close> (and timestamps nothing reads). The
  readings of the clock that only fill the \<open>Updated\<close> field of the cache entry are left
  out: the counter of readings counts those that reach a pod name or the store.
  \<open>syncReplicaSets\<close> (the body of \<open>Sync\<close>) lists the ReplicaSets once and syncs each; an
  error of one ReplicaSet is printed and the loop goes on.
\<close>

definition syncReplicaSet :: "clock \<Rightarrow> ReplicaSet \<Rightarrow> memoryStore \<times> nat
    \<Rightarrow> error list \<times> memoryStore \<times> nat" where
  "syncReplicaSet clk replicaSet st =
     (case ensurePods clk replicaSet st of
        (errs, currentPods, s1, t1) \<Rightarrow>
          (case updateReplicaSetStatus clk replicaSet currentPods (s1, t1) of
             (res, st2) \<Rightarrow> (errs @ (case res of None \<Rightarrow> [] | Some err \<Rightarrow> [err]), st2)))"

fun replicaSetsOf :: "Object list \<Rightarrow> ReplicaSet list" where
  "replicaSetsOf [] = []"
| "replicaSetsOf (ReplicaSetObj r # rest) = r # replicaSetsOf rest"
| "replicaSetsOf (obj # rest) = replicaSetsOf rest"

fun syncEach :: "clock \<Rightarrow> ReplicaSet list \<Rightarrow> memoryStore \<times> nat \<Rightarrow> error list \<times> memoryStore \<times> nat" where
  "syncEach clk [] st = ([], st)"
| "syncEach clk (replicaSet # rest) st =
     (case syncReplicaSet clk replicaSet st of
        (errs, st') \<Rightarrow> (case syncEach clk rest st' of (errs', st'') \<Rightarrow> (errs @ errs', st'')))"

definition syncReplicaSets :: "clock \<Rightarrow> memoryStore \<times> nat \<Rightarrow> error list \<times> memoryStore \<times> nat" where
  "syncReplicaSets clk st =
     (case st of (s, t) \<Rightarrow> syncEach clk (replicaSetsOf (List ''ReplicaSet'' [] s)) (s, t))"

text \<open>Concrete cluster states used to evaluate the controllers.\<close>

definition storeWith2 :: "string \<Rightarrow> (string \<times> Object) list \<Rightarrow> string \<Rightarrow> (string \<times> Object) list
    \<Rightarrow> memoryStore" where
  "storeWith2 kind1 entries1 kind2 entries2 =
     (NewMemoryStore 100)\<lparr>objects := [kind1 \<mapsto> entries1, kind2 \<mapsto> entries2]\<rparr>"

definition steadyReplicaSet :: "string \<Rightarrow> ReplicaSet" where
  "steadyReplicaSet rv =
     (mkReplicaSet ''default'' ''web'' ''uid-1'' 1 nginxSpec)
       \<lparr>rs_meta := emptyMeta\<lparr>Name := ''web'', Namespace := ''default'', UID := ''uid-1'',
                              ResourceVersion := rv\<rparr>,
        rs_status := \<lparr>st_Replicas = 1, st_ReadyReplicas = 1, st_AvailableReplicas = 1\<rparr>\<rparr>"

definition steadyCluster :: "string \<Rightarrow> memoryStore" where
  "steadyCluster rv =
     storeWith2 ''ReplicaSet'' [(''default/web'', ReplicaSetObj (steadyReplicaSet rv))]
       ''Pod'' [(''default/web-1'',
                 PodObj (mkOwnedPod ''default'' ''web-1'' ''Running'' ''web'' ''uid-1''))]"

definition laterClock :: clock where
  "laterClock n = 2000 + int n"

text \<open>
  The invariant of the pod map that the store operations keep: the keys are distinct (it
  is a Go map) and every object is filed under the key built from its own namespace and
  name (\<open>Create\<close> and \<open>Update\<close> compute the key from the object they store).
\<close>

definition objKey :: "Object \<Rightarrow> string" where
  "objKey obj = objectKey (GetNamespace obj) (GetName obj)"


definition podsKeyed :: "memoryStore \<Rightarrow> bool" where
  "podsKeyed s =
     (case objects s ''Pod'' of
        None \<Rightarrow> True
      | Some m \<Rightarrow> distinct (map fst m) \<and> list_all (\<lambda>(key, obj). key = objKey obj) m)"

text \<open>What \<open>createPod\<close> of the ReplicaSet controller hands to the store, as stored.\<close>

definition createdPod :: "ReplicaSet \<Rightarrow> int \<Rightarrow> int \<Rightarrow> int \<Rightarrow> Pod" where
  "createdPod replicaSet now rvNow tsNow =
     (podFromTemplate replicaSet now)
       \<lparr>pod_meta := (pod_meta (podFromTemplate replicaSet now))
          \<lparr>ResourceVersion := FormatInt rvNow, CreationTimestamp := tsNow\<rparr>\<rparr>"


definition constClock :: clock where
  "constClock n = 5"

section \<open>The Deployment controller (package controller)\<close>

text \<open>
  The controller keeps, for each deployment key, a \<open>DeploymentState\<close> with the deployment
  last seen and the ReplicaSet it created (\<open>None\<close> while the pointer is nil). In the
  in-memory store the tracked ReplicaSet and the stored one are the same Go object; the
  model keeps the tracked copy equal to what the controller last wrote.
\<close>

record DeploymentState =
  ds_Deployment :: Deployment
  ds_ReplicaSet :: "ReplicaSet option"

type_synonym deployments = "(string \<times> DeploymentState) list"

text \<open>\<open>Spec.Template.Spec.Containers[0].Image\<close>; indexing an empty slice panics.\<close>

definition primaryImage :: "PodTemplateSpec \<Rightarrow> error + string" where
  "primaryImage template =
     (case Containers (tmpl_spec template) of
        [] \<Rightarrow> Inl IndexOutOfRange
      | c # rest \<Rightarrow> Inr (c_Image c))"

definition templateMatches :: "DeploymentState \<Rightarrow> Deployment \<Rightarrow> error + bool" where
  "templateMatches state deployment =
     (case ds_ReplicaSet state of
        None \<Rightarrow> Inr False
      | Some replicaSet \<Rightarrow>
          (case primaryImage (Template (rs_spec replicaSet)) of
             Inl err \<Rightarrow> Inl err
           | Inr rsImage \<Rightarrow>
               (case primaryImage (Template (dep_spec deployment)) of
                  Inl err \<Rightarrow> Inl err
                | Inr depImage \<Rightarrow> Inr (rsImage = depImage))))"

definition replicaSetFor :: "Deployment \<Rightarrow> (string \<times> string) list \<Rightarrow> int \<Rightarrow> ReplicaSet" where
  "replicaSetFor deployment matchLabels now =
     \<lparr>rs_type = \<lparr>Kind = ''ReplicaSet'', APIVersion = ''v1alpha1''\<rparr>,
      rs_meta = \<lparr>Name = Name (dep_meta deployment) @ ''-'' @ FormatInt (now div 1000000000),
                 Namespace = Namespace (dep_meta deployment),
                 UID = [], ResourceVersion = [], CreationTimestamp = 0,
                 Labels = matchLabels,
                 OwnerReferences = [\<lparr>ref_APIVersion = APIVersion (dep_type deployment),
                                      ref_Kind = Kind (dep_type deployment),
                                      ref_Name = Name (dep_meta deployment),
                                      ref_UID = UID (dep_meta deployment)\<rparr>]\<rparr>,
      rs_spec = \<lparr>Replicas = Replicas (dep_spec deployment),
                 Selector = Selector (dep_spec deployment),
                 Template = Template (dep_spec deployment)\<rparr>,
      rs_status = \<lparr>st_Replicas = 0, st_ReadyReplicas = 0, st_AvailableReplicas = 0\<rparr>\<rparr>"

text \<open>
  \<open>ensureReplicaSet\<close>: nothing is done when a ReplicaSet is tracked and its first
  container image equals the deployment's; otherwise a new ReplicaSet is created and
  tracked. The name uses \<open>time.Now().Unix()\<close>, the clock reading in whole seconds.
\<close>

definition ensureReplicaSet :: "clock \<Rightarrow> Deployment \<Rightarrow> DeploymentState \<Rightarrow> memoryStore \<times> nat
    \<Rightarrow> error option \<times> DeploymentState \<times> memoryStore \<times> nat" where
  "ensureReplicaSet clk deployment state st =
     (case st of (s, t) \<Rightarrow>
        (case templateMatches state deployment of
           Inl err \<Rightarrow> (Some err, state, s, t)
         | Inr True \<Rightarrow> (None, state, s, t)
         | Inr False \<Rightarrow>
             (case Selector (dep_spec deployment) of
                None \<Rightarrow> (Some NilDereference, state, s, t + 1)
              | Some matchLabels \<Rightarrow>
                  (case Create (clk (t + 1)) (clk (t + 2))
                          (ReplicaSetObj (replicaSetFor deployment matchLabels (clk t))) s of
                     Inl err \<Rightarrow> (Some err, state, s, t + 1)
                   | Inr (obj', s') \<Rightarrow>
                       (None,
                        state\<lparr>ds_ReplicaSet := Some (case obj' of ReplicaSetObj r \<Rightarrow> r
                            | _ \<Rightarrow> replicaSetFor deployment matchLabels (clk t))\<rparr>,
                        s', t + 3)))))"

text \<open>
  \<open>ensurePods\<close> of the Deployment controller: the pods retained for the tracked
  ReplicaSet are brought to the deployment's \<open>spec.replicas\<close> with the same two loops
  as in the ReplicaSet controller (\<open>createPod\<close> builds the pod from the tracked
  ReplicaSet), then \<open>status.replicas\<close> of the tracked ReplicaSet is set and the
  ReplicaSet is written with \<open>Update\<close>. It returns the printed errors, the returned
  error, and the new state.
\<close>

definition dep_ensurePods :: "clock \<Rightarrow> Deployment \<Rightarrow> DeploymentState \<Rightarrow> memoryStore \<times> nat
    \<Rightarrow> error list \<times> error option \<times> DeploymentState \<times> memoryStore \<times> nat" where
  "dep_ensurePods clk deployment state st =
     (case st of (s, t) \<Rightarrow>
        (case ds_ReplicaSet state of
           None \<Rightarrow> ([], Some NoReplicaSetForDeployment, state, s, t)
         | Some replicaSet \<Rightarrow>
             (let currentPods = retainedPods replicaSet s;
                  desiredReplicas = Replicas (dep_spec deployment);
                  currentReplicas = int32 (int (length currentPods));
                  (errs1, s1, t1) =
                    (if currentReplicas < desiredReplicas
                     then createPods clk replicaSet
                            (nat (int32 (desiredReplicas - currentReplicas))) (s, t)
                     else ([], s, t));
                  (errs2, s2) =
                    (if currentReplicas > desiredReplicas
                     then deletePods (take (nat (int32 (currentReplicas - desiredReplicas)))
                                        currentPods) s1
                     else ([], s1));
                  replicaSet' = replicaSet\<lparr>rs_status := (rs_status replicaSet)
                                  \<lparr>st_Replicas := int32 (int (length currentPods))\<rparr>\<rparr>
              in case Update (clk t1) (ReplicaSetObj replicaSet') s2 of
                   Inl err \<Rightarrow> (errs1 @ errs2, Some err,
                               state\<lparr>ds_ReplicaSet := Some replicaSet'\<rparr>, s2, t1)
                 | Inr (obj', s3) \<Rightarrow>
                     (errs1 @ errs2, None,
                      state\<lparr>ds_ReplicaSet := Some (case obj' of ReplicaSetObj r \<Rightarrow> r
                                                        | _ \<Rightarrow> replicaSet')\<rparr>,
                      s3, t1 + 1))))"

definition syncDeployment :: "clock \<Rightarrow> Deployment \<Rightarrow> deployments \<times> memoryStore \<times> nat
    \<Rightarrow> error list \<times> error option \<times> deployments \<times> memoryStore \<times> nat" where
  "syncDeployment clk deployment st =
     (case st of (ctrl, s, t) \<Rightarrow>
        (let deploymentKey = objectKey (Namespace (dep_meta deployment)) (Name (dep_meta deployment));
             state0 = (case map_of ctrl deploymentKey of
                         None \<Rightarrow> \<lparr>ds_Deployment = deployment, ds_ReplicaSet = None\<rparr>
                       | Some state \<Rightarrow> state);
             state1 = (if ResourceVersion (dep_meta (ds_Deployment state0))
                            \<noteq> ResourceVersion (dep_meta deployment)
                       then state0\<lparr>ds_Deployment := deployment\<rparr> else state0)
         in case ensureReplicaSet clk deployment state1 (s, t) of
              (Some err, state2, s2, t2) \<Rightarrow>
                ([], Some err, AList.update deploymentKey state2 ctrl, s2, t2)
            | (None, state2, s2, t2) \<Rightarrow>
                (case dep_ensurePods clk deployment state2 (s2, t2) of
                   (errs, res, state3, s3, t3) \<Rightarrow>
                     (errs, res, AList.update deploymentKey state3 ctrl, s3, t3))))"

definition mkDeployment :: "string \<Rightarrow> string \<Rightarrow> string \<Rightarrow> int \<Rightarrow> PodSpec \<Rightarrow> Deployment" where
  "mkDeployment ns name uid n spec =
     \<lparr>dep_type = \<lparr>Kind = ''Deployment'', APIVersion = ''v1alpha1''\<rparr>,
      dep_meta = emptyMeta\<lparr>Name := name, Namespace := ns, UID := uid\<rparr>,
      dep_spec = \<lparr>Replicas = n, Selector = Some [(''app'', ''nginx'')],
                  Template = \<lparr>tmpl_meta = emptyMeta\<lparr>Labels := [(''app'', ''nginx'')]\<rparr>,
                               tmpl_spec = spec\<rparr>\<rparr>,
      dep_status = \<lparr>st_Replicas = 0, st_ReadyReplicas = 0, st_AvailableReplicas = 0\<rparr>\<rparr>"

text \<open>\<open>spec.replicas\<close> of the ReplicaSet stored under a namespace and name, if there is one.\<close>

definition storedReplicas :: "string \<Rightarrow> string \<Rightarrow> memoryStore \<Rightarrow> int option" where
  "storedReplicas ns name s =
     (case Get ''ReplicaSet'' ns name s of
        Inr (ReplicaSetObj r) \<Rightarrow> Some (Replicas (rs_spec r))
      | _ \<Rightarrow> None)"

text \<open>
  A deployment scaled from two to three replicas, with the ReplicaSet the controller
  created for it (two replicas, same image) stored and tracked.
\<close>

definition ownedReplicaSet :: ReplicaSet where
  "ownedReplicaSet =
     (let r = replicaSetFor (mkDeployment ''default'' ''web'' ''uid-d'' 2 nginxSpec)
                [(''app'', ''nginx'')] 1000000000000
      in r\<lparr>rs_meta := (rs_meta r)\<lparr>ResourceVersion := ''1001'', CreationTimestamp := 1002\<rparr>\<rparr>)"

definition scaledDeployment :: Deployment where
  "scaledDeployment = mkDeployment ''default'' ''web'' ''uid-d'' 3 nginxSpec"

definition trackingController :: deployments where
  "trackingController =
     [(''default/web'', \<lparr>ds_Deployment = mkDeployment ''default'' ''web'' ''uid-d'' 2 nginxSpec,
                          ds_ReplicaSet = Some ownedReplicaSet\<rparr>)]"

definition deploymentCluster :: memoryStore where
  "deploymentCluster =
     storeWith2 ''Deployment'' [(''default/web'', DeploymentObj scaledDeployment)]
       ''ReplicaSet'' [(''default/web-1000'', ReplicaSetObj ownedReplicaSet)]"

text \<open>The pod stored under a namespace and name, if there is one.\<close>

definition storedPod :: "string \<Rightarrow> string \<Rightarrow> memoryStore \<Rightarrow> Pod option" where
  "storedPod ns name s =
     (case Get ''Pod'' ns name s of
        Inr (PodObj p) \<Rightarrow> Some p
      | _ \<Rightarrow> None)"

text \<open>The entries of the map of one kind.\<close>

definition entriesOf :: "string \<Rightarrow> memoryStore \<Rightarrow> (string \<times> Object) list" where
  "entriesOf kind s = (case objects s kind of None \<Rightarrow> [] | Some m \<Rightarrow> m)"

section \<open>The in-memory store with its pointers\<close>

text \<open>
  \<open>memoryStore\<close> keeps the pointers it is given: \<open>Get\<close> and \<open>List\<close> return the stored
  pointers, a watch event carries the stored pointer, and callers write through a
  pointer they got from the store before they call \<open>Update\<close> with it. Where a claim is
  about what is read between two store calls, or about what a queued event shows when
  it is received, the objects are modelled at their addresses. \<open>memory\<close> is the memory
  of the process, one region for each struct type, and an \<open>ObjectRef\<close> is a non-nil
  \<open>store.Object\<close>: the dynamic type and the address. \<open>heapStore\<close> is the store with the
  memory its pointers point into; \<open>h_objects\<close> and \<open>h_watchers\<close> are the two maps of
  \<open>memoryStore\<close>, an event in a watcher's channel holding the pointer that was sent.
\<close>

type_synonym ref = nat

datatype ObjectRef = PodRef ref | NodeRef ref | ReplicaSetRef ref | DeploymentRef ref

record memory =
  podAt :: "ref \<Rightarrow> Pod"
  nodeAt :: "ref \<Rightarrow> Node"
  replicaSetAt :: "ref \<Rightarrow> ReplicaSet"
  deploymentAt :: "ref \<Rightarrow> Deployment"

fun load :: "memory \<Rightarrow> ObjectRef \<Rightarrow> Object" where
  "load h (PodRef r) = PodObj (podAt h r)"
| "load h (NodeRef r) = NodeObj (nodeAt h r)"
| "load h (ReplicaSetRef r) = ReplicaSetObj (replicaSetAt h r)"
| "load h (DeploymentRef r) = DeploymentObj (deploymentAt h r)"

text \<open>
  A write through an \<open>ObjectRef\<close>. The setters of \<open>store.Object\<close> keep the type of what
  they write, so the last equation is never used.
\<close>

fun put :: "ObjectRef \<Rightarrow> Object \<Rightarrow> memory \<Rightarrow> memory" where
  "put (PodRef r) (PodObj p) h = h\<lparr>podAt := (podAt h)(r := p)\<rparr>"
| "put (NodeRef r) (NodeObj n) h = h\<lparr>nodeAt := (nodeAt h)(r := n)\<rparr>"
| "put (ReplicaSetRef r) (ReplicaSetObj x) h = h\<lparr>replicaSetAt := (replicaSetAt h)(r := x)\<rparr>"
| "put (DeploymentRef r) (DeploymentObj d) h = h\<lparr>deploymentAt := (deploymentAt h)(r := d)\<rparr>"
| "put obj v h = h"

record RefEvent =
  re_Type :: EventType
  re_Object :: ObjectRef

record refWatcher =
  rw_events :: "RefEvent list"
  rw_cap :: nat
  rw_kind :: string
  rw_ns :: string

record heapStore =
  heap :: memory
  h_objects :: "string \<rightharpoonup> (string \<times> ObjectRef) list"
  h_watchers :: "string \<rightharpoonup> refWatcher list"
  h_WatchBufferSize :: nat

definition trySend_ptr :: "RefEvent \<Rightarrow> refWatcher \<Rightarrow> refWatcher" where
  "trySend_ptr ev w =
     (if length (rw_events w) < rw_cap w then w\<lparr>rw_events := rw_events w @ [ev]\<rparr> else w)"

definition notifyWatchers_ptr :: "EventType \<Rightarrow> ObjectRef \<Rightarrow> heapStore \<Rightarrow> heapStore" where
  "notifyWatchers_ptr eventType obj s =
     (let kind = GetKind (load (heap s) obj);
          namespace = GetNamespace (load (heap s) obj);
          key = kind @ ''/'' @ namespace
      in case h_watchers s key of
           None \<Rightarrow> s
         | Some ws \<Rightarrow> s\<lparr>h_watchers := (h_watchers s)(key \<mapsto>
                         map (trySend_ptr \<lparr>re_Type = eventType, re_Object = obj\<rparr>) ws)\<rparr>)"

definition Create_ptr :: "int \<Rightarrow> int \<Rightarrow> ObjectRef \<Rightarrow> heapStore \<Rightarrow> error + heapStore" where
  "Create_ptr now1 now2 obj s =
     (let kind = GetKind (load (heap s) obj);
          namespace = GetNamespace (load (heap s) obj);
          name = GetName (load (heap s) obj);
          m = (case h_objects s kind of None \<Rightarrow> [] | Some m \<Rightarrow> m)
      in if map_of m (objectKey namespace name) \<noteq> None then Inl AlreadyExists
         else let h1 = put obj (SetResourceVersion (FormatInt now1) (load (heap s) obj)) (heap s);
                  h2 = put obj (SetCreationTimestamp now2 (load h1 obj)) h1;
                  key = objectKey namespace name;
                  s' = s\<lparr>heap := h2, h_objects := (h_objects s)(kind \<mapsto> AList.update key obj m)\<rparr>
              in Inr (notifyWatchers_ptr Added obj s'))"

definition Get_ptr :: "string \<Rightarrow> string \<Rightarrow> string \<Rightarrow> heapStore \<Rightarrow> error + ObjectRef" where
  "Get_ptr kind namespace name s =
     (case h_objects s kind of
        None \<Rightarrow> Inl NoObjectsOfKind
      | Some m \<Rightarrow> (case map_of m (objectKey namespace name) of
                     None \<Rightarrow> Inl NotFound
                   | Some obj \<Rightarrow> Inr obj))"

definition List_ptr :: "string \<Rightarrow> string \<Rightarrow> heapStore \<Rightarrow> ObjectRef list" where
  "List_ptr kind namespace s =
     (case h_objects s kind of
        None \<Rightarrow> []
      | Some m \<Rightarrow> if namespace = [] then map snd m
                  else map snd (filter (\<lambda>(key, obj). keyInNamespace key namespace) m))"

definition Update_ptr :: "int \<Rightarrow> ObjectRef \<Rightarrow> heapStore \<Rightarrow> error + heapStore" where
  "Update_ptr now obj s =
     (let kind = GetKind (load (heap s) obj);
          namespace = GetNamespace (load (heap s) obj);
          name = GetName (load (heap s) obj)
      in case h_objects s kind of
           None \<Rightarrow> Inl NoObjectsOfKind
         | Some m \<Rightarrow>
             (let key = objectKey namespace name
              in if map_of m key = None then Inl NotFound
                 else let h1 = put obj (SetResourceVersion (FormatInt now) (load (heap s) obj)) (heap s);
                          s' = s\<lparr>heap := h1, h_objects := (h_objects s)(kind \<mapsto> AList.update key obj m)\<rparr>
                      in Inr (notifyWatchers_ptr Modified obj s')))"

definition Delete_ptr :: "string \<Rightarrow> string \<Rightarrow> string \<Rightarrow> heapStore \<Rightarrow> error + heapStore" where
  "Delete_ptr kind namespace name s =
     (case h_objects s kind of
        None \<Rightarrow> Inl NoObjectsOfKind
      | Some m \<Rightarrow>
          (let key = objectKey namespace name
           in case map_of m key of
                None \<Rightarrow> Inl NotFound
              | Some obj \<Rightarrow>
                  (let s1 = notifyWatchers_ptr Deleted obj s;
                       m' = AList.delete key m
                   in Inr (s1\<lparr>h_objects := (if m' = [] then (h_objects s1)(kind := None)
                                              else (h_objects s1)(kind \<mapsto> m'))\<rparr>))))"

text \<open>
  \<open>Watch\<close> registers a new watcher at the end of the slice under \<open>kind/namespace\<close> and
  sends it an \<open>Added\<close> event with the stored pointer for every entry of the kind whose
  key passes \<open>keyInNamespace\<close>. The result is the new store; the channel returned to
  the caller is that of the watcher just appended. The goroutine that removes a stopped
  watcher is left out.
\<close>

definition Watch_ptr :: "string \<Rightarrow> string \<Rightarrow> heapStore \<Rightarrow> heapStore" where
  "Watch_ptr kind namespace s =
     (let w = \<lparr>rw_events = [], rw_cap = h_WatchBufferSize s, rw_kind = kind, rw_ns = namespace\<rparr>;
          key = kind @ ''/'' @ namespace;
          existing = (case h_objects s kind of None \<Rightarrow> [] | Some m \<Rightarrow> m);
          w' = foldl (\<lambda>w (objKey, obj).
                        if keyInNamespace objKey namespace
                        then trySend_ptr \<lparr>re_Type = Added, re_Object = obj\<rparr> w else w) w existing
      in s\<lparr>h_watchers := (h_watchers s)(key \<mapsto>
              (case h_watchers s key of None \<Rightarrow> [] | Some ws \<Rightarrow> ws) @ [w'])\<rparr>)"

text \<open>
  The watchers registered under \<open>kind/namespace\<close>, the entries of a kind, the events a
  new watcher is sent for them, and what a receiver reads when it takes the events of a
  channel in a given state: each event with the object its pointer points to then.
\<close>

definition watchersOf :: "string \<Rightarrow> string \<Rightarrow> heapStore \<Rightarrow> refWatcher list" where
  "watchersOf kind namespace s =
     (case h_watchers s (kind @ ''/'' @ namespace) of None \<Rightarrow> [] | Some ws \<Rightarrow> ws)"

definition refsOf :: "string \<Rightarrow> heapStore \<Rightarrow> (string \<times> ObjectRef) list" where
  "refsOf kind s = (case h_objects s kind of None \<Rightarrow> [] | Some m \<Rightarrow> m)"

definition event :: "EventType \<Rightarrow> ObjectRef \<Rightarrow> RefEvent" where
  "event eventType obj = \<lparr>re_Type = eventType, re_Object = obj\<rparr>"

definition snapshotEvents :: "string \<Rightarrow> string \<Rightarrow> heapStore \<Rightarrow> RefEvent list" where
  "snapshotEvents kind namespace s =
     map (event Added \<circ> snd)
       (filter (\<lambda>(objKey, obj). keyInNamespace objKey namespace) (refsOf kind s))"

definition received :: "heapStore \<Rightarrow> refWatcher \<Rightarrow> WatchEvent list" where
  "received s w =
     map (\<lambda>ev. \<lparr>ev_Type = re_Type ev, ev_Object = load (heap s) (re_Object ev)\<rparr>) (rw_events w)"

text \<open>
  The key invariant of the map of one kind: distinct keys, each the \<open>namespace/name\<close> of
  the object its pointer points to.
\<close>

definition kindKeyed :: "string \<Rightarrow> heapStore \<Rightarrow> bool" where
  "kindKeyed kind s =
     (distinct (map fst (refsOf kind s))
      \<and> list_all (\<lambda>(key, obj). key = objKey (load (heap s) obj)) (refsOf kind s))"

section \<open>The scheduler on the stored pointers\<close>

text \<open>
  \<open>processUnscheduledPods\<close> hands \<open>schedulePod\<close> the pointers \<open>List\<close> returned, so the
  three assignments of \<open>schedulePod\<close> (\<open>pod.Spec.NodeName\<close>, \<open>pod.Status.Phase\<close>,
  \<open>pod.Status.Conditions\<close>) write into the stored pod, one after the other and outside
  the lock of the store, before \<open>Update\<close> is called. \<open>schedulePod_ptr\<close> returns, in
  front of the error and the new state, the store after each of these writes and after
  \<open>Update\<close>: the states another goroutine can read while the call runs. The scheduler's
  map keeps the pod pointer.
\<close>

record ScheduledRef =
  sr_Pod :: ref
  sr_NodeName :: string
  sr_Time :: int
  sr_Status :: string

type_synonym scheduledRefs = "(string \<times> ScheduledRef) list"

definition trackedPods :: "memory \<Rightarrow> scheduledRefs \<Rightarrow> scheduledPods" where
  "trackedPods h sched =
     map (\<lambda>(key, tracked). (key, \<lparr>sp_Pod = podAt h (sr_Pod tracked),
                                   sp_NodeName = sr_NodeName tracked,
                                   sp_Time = sr_Time tracked,
                                   sp_Status = sr_Status tracked\<rparr>)) sched"

definition modifyPod :: "(Pod \<Rightarrow> Pod) \<Rightarrow> ref \<Rightarrow> heapStore \<Rightarrow> heapStore" where
  "modifyPod f r s = s\<lparr>heap := (heap s)\<lparr>podAt := (podAt (heap s))(r := f (podAt (heap s) r))\<rparr>\<rparr>"

definition schedulePod_ptr :: "clock \<Rightarrow> sscanf \<Rightarrow> ref \<Rightarrow> ObjectRef list
    \<Rightarrow> scheduledRefs \<times> heapStore \<times> nat
    \<Rightarrow> heapStore list \<times> error option \<times> scheduledRefs \<times> heapStore \<times> nat" where
  "schedulePod_ptr clk pf pod nodes st =
     (case st of (sched, s, t) \<Rightarrow>
        (case findBestNode pf (trackedPods (heap s) sched) (podAt (heap s) pod)
                (map (load (heap s)) nodes) of
           Inl err \<Rightarrow> ([], Some err, sched, s, t)
         | Inr None \<Rightarrow> ([], Some NilDereference, sched, s, t)
         | Inr (Some node) \<Rightarrow>
             (let s1 = modifyPod (\<lambda>p. p\<lparr>pod_spec := (pod_spec p)\<lparr>NodeName := GetName node\<rparr>\<rparr>) pod s;
                  s2 = modifyPod (\<lambda>p. p\<lparr>pod_status := (pod_status p)\<lparr>Phase := PodScheduled\<rparr>\<rparr>) pod s1;
                  s3 = modifyPod (\<lambda>p. p\<lparr>pod_status := (pod_status p)\<lparr>Conditions :=
                         Conditions (pod_status p) @
                           [\<lparr>pc_Type = ''PodScheduled'', pc_Status = ''True'',
                             pc_LastTransitionTime = clk t, pc_Reason = ''Scheduled'',
                             pc_Message = ''Pod scheduled to node '' @ GetName node\<rparr>]\<rparr>\<rparr>) pod s2
              in case Update_ptr (clk (t + 1)) (PodRef pod) s3 of
                   Inl err \<Rightarrow> ([s1, s2, s3], Some err, sched, s3, t + 1)
                 | Inr s4 \<Rightarrow>
                     ([s1, s2, s3, s4], None,
                      AList.update (objectKey (Namespace (pod_meta (podAt (heap s4) pod)))
                                              (Name (pod_meta (podAt (heap s4) pod))))
                        \<lparr>sr_Pod = pod, sr_NodeName = GetName node,
                         sr_Time = clk (t + 2), sr_Status = ''Scheduled''\<rparr> sched,
                      s4, t + 3))))"





text \<open>Concrete memory and stores used to evaluate the definitions of this section.\<close>

definition blankMemory :: memory where
  "blankMemory =
     \<lparr>podAt = (\<lambda>r. plainPod [] [] [] 0),
      nodeAt = (\<lambda>r. mkNode [] [] []),
      replicaSetAt = (\<lambda>r. mkReplicaSet [] [] [] 0 emptyPodSpec),
      deploymentAt = (\<lambda>r. mkDeployment [] [] [] 0 emptyPodSpec)\<rparr>"

definition NewHeapStore :: "memory \<Rightarrow> nat \<Rightarrow> heapStore" where
  "NewHeapStore h bufSize =
     \<lparr>heap = h, h_objects = Map.empty, h_watchers = Map.empty, h_WatchBufferSize = bufSize\<rparr>"



text \<open>
  A store that holds the pod \<open>default/p1\<close>, in a memory where the pod \<open>default/p2\<close> has
  been built and not yet created.
\<close>

definition watchMemory :: memory where
  "watchMemory =
     blankMemory\<lparr>podAt := (podAt blankMemory)(0 := plainPod ''default'' ''p1'' ''1000'' 1000,
                                                1 := plainPod ''default'' ''p2'' [] 0)\<rparr>"

definition podStore :: heapStore where
  "podStore =
     \<lparr>heap = watchMemory,
      h_objects = [''Pod'' \<mapsto> [(''default/p1'', PodRef 0)]],
      h_watchers = Map.empty,
      h_WatchBufferSize = 100\<rparr>"

text \<open>
  The same store after a watch of the pods of \<open>default\<close> is opened, then \<open>default/p2\<close> is
  created, then updated through the same pointer, then \<open>default/p1\<close> is deleted.
\<close>

definition watchedStore :: heapStore where
  "watchedStore = Watch_ptr ''Pod'' ''default'' podStore"

definition createdStore :: heapStore where
  "createdStore = projr (Create_ptr 2000 2001 (PodRef 1) watchedStore)"

definition updatedStore :: heapStore where
  "updatedStore = projr (Update_ptr 3000 (PodRef 1) createdStore)"

definition deletedStore :: heapStore where
  "deletedStore = projr (Delete_ptr ''Pod'' ''default'' ''p1'' updatedStore)"
section \<open>Ownership is decided by kind and name\<close>

lemma ownerRefsMatch_iff:
  "ownerRefsMatch refs rs \<longleftrightarrow>
     (\<exists>r \<in> set refs. ref_Kind r = ''ReplicaSet'' \<and> ref_Name r = Name (rs_meta rs))"
  by (induction refs) auto

section \<open>Basic facts about the store\<close>

lemma GetKind_SetResourceVersion [simp]: "GetKind (SetResourceVersion v obj) = GetKind obj"
  by (cases obj) (simp_all add: GetKind_def)

lemma GetName_SetResourceVersion [simp]: "GetName (SetResourceVersion v obj) = GetName obj"
  by (cases obj) (simp_all add: GetName_def)

lemma GetNamespace_SetResourceVersion [simp]:
  "GetNamespace (SetResourceVersion v obj) = GetNamespace obj"
  by (cases obj) (simp_all add: GetNamespace_def)

lemma GetKind_SetCreationTimestamp [simp]: "GetKind (SetCreationTimestamp t obj) = GetKind obj"
  by (cases obj) (simp_all add: GetKind_def)

lemma GetName_SetCreationTimestamp [simp]: "GetName (SetCreationTimestamp t obj) = GetName obj"
  by (cases obj) (simp_all add: GetName_def)

lemma GetNamespace_SetCreationTimestamp [simp]:
  "GetNamespace (SetCreationTimestamp t obj) = GetNamespace obj"
  by (cases obj) (simp_all add: GetNamespace_def)

lemma GetResourceVersion_SetResourceVersion [simp]:
  "GetResourceVersion (SetResourceVersion v obj) = v"
  by (cases obj) (simp_all add: GetResourceVersion_def)

lemma GetResourceVersion_SetCreationTimestamp [simp]:
  "GetResourceVersion (SetCreationTimestamp t obj) = GetResourceVersion obj"
  by (cases obj) (simp_all add: GetResourceVersion_def)

lemma objects_notifyWatchers [simp]: "objects (notifyWatchers t obj s) = objects s"
  by (simp add: notifyWatchers_def Let_def split: option.splits)

lemma WatchBufferSize_notifyWatchers [simp]:
  "WatchBufferSize (notifyWatchers t obj s) = WatchBufferSize s"
  by (simp add: notifyWatchers_def Let_def split: option.splits)

subsection \<open>Decimal rendering is inverted by \<open>rv_number\<close>\<close>








section \<open>Resource-versions are clock readings\<close>

lemma Create_Get:
  assumes "Create now1 now2 obj s = Inr (obj', s')"
  shows "Get (GetKind obj) (GetNamespace obj) (GetName obj) s' = Inr obj'"
    and "GetResourceVersion obj' = FormatInt now1"
  using assms
  by (auto simp: Create_def Get_def Let_def update_conv' split: if_splits)

lemma Update_Get:
  assumes "Update now obj s = Inr (obj', s')"
  shows "Get (GetKind obj) (GetNamespace obj) (GetName obj) s' = Inr obj'"
    and "GetResourceVersion obj' = FormatInt now"
  using assms
  by (auto simp: Update_def Get_def Let_def update_conv' split: option.splits if_splits)




section \<open>The scheduler\<close>

lemma Update_other:
  assumes "Update now obj s = Inr (obj', s')"
    and "kind \<noteq> GetKind obj \<or> objectKey ns n \<noteq> objectKey (GetNamespace obj) (GetName obj)"
  shows "Get kind ns n s' = Get kind ns n s"
  using assms
  by (auto simp: Update_def Get_def Let_def update_conv' split: option.splits if_splits)

lemma Update_result:
  assumes "Update now obj s = Inr (obj', s')"
  shows "obj' = SetResourceVersion (FormatInt now) obj"
  using assms by (auto simp: Update_def Let_def split: option.splits if_splits)

lemma schedulePod_found:
  assumes "findBestNode pf sched pod nodes = Inr (Some node)"
  shows "schedulePod clk pf pod nodes (sched, s, t) =
     (case Update (clk (t + 1)) (PodObj (bindPod pod (GetName node) (clk t))) s of
        Inl err \<Rightarrow> (Some err, sched, s, t + 1)
      | Inr (obj', s') \<Rightarrow>
          (None,
           AList.update (objectKey (Namespace (pod_meta pod)) (Name (pod_meta pod)))
             \<lparr>sp_Pod = (case obj' of PodObj p \<Rightarrow> p
                                | _ \<Rightarrow> bindPod pod (GetName node) (clk t)),
              sp_NodeName = GetName node, sp_Time = clk (t + 2), sp_Status = ''Scheduled''\<rparr> sched,
           s', t + 3))"
  using assms by (simp add: schedulePod_def Let_def split: sum.splits)

text \<open>
  What \<open>findBestNode\<close> returns when some node passes the filters: a nil node exactly when
  no suitable node has a positive score, and otherwise a suitable node of positive,
  maximal score.
\<close>

lemma scoreNodes_result:
  assumes "scoreNodes pf sched pod ns (b, bs) = (b', bs')"
  shows "(b' = b \<and> bs' = bs \<and> (\<forall>n \<in> set ns. calculateNodeScore pf sched pod n \<le> bs))
       \<or> (\<exists>n \<in> set ns. b' = Some (NodeObj n) \<and> bs' = calculateNodeScore pf sched pod n
              \<and> bs < bs' \<and> (\<forall>m \<in> set ns. calculateNodeScore pf sched pod m \<le> bs'))"
  using assms
proof (induction ns arbitrary: b bs)
  case Nil
  then show ?case by simp
next
  case (Cons n ns)
  let ?sc = "calculateNodeScore pf sched pod n"
  show ?case
  proof (cases "?sc > bs")
    case True
    with Cons.prems have "scoreNodes pf sched pod ns (Some (NodeObj n), ?sc) = (b', bs')"
      by (simp add: Let_def)
    from Cons.IH [OF this] True show ?thesis by (elim disjE) fastforce+
  next
    case False
    with Cons.prems have "scoreNodes pf sched pod ns (b, bs) = (b', bs')"
      by (simp add: Let_def)
    from Cons.IH [OF this] False show ?thesis by (elim disjE) fastforce+
  qed
qed

lemma findBestNode_nil_iff:
  assumes "suitableNodes pf pod nodes \<noteq> []"
  shows "findBestNode pf sched pod nodes = Inr None
           \<longleftrightarrow> (\<forall>n \<in> set (suitableNodes pf pod nodes). calculateNodeScore pf sched pod n \<le> 0)"
proof -
  obtain b' bs' where r: "scoreNodes pf sched pod (suitableNodes pf pod nodes) (None, 0) = (b', bs')"
    by (cases "scoreNodes pf sched pod (suitableNodes pf pod nodes) (None, 0)")
  from scoreNodes_result [OF r] assms r show ?thesis
    by (auto simp: findBestNode_def)
qed

lemma findBestNode_Some:
  assumes "findBestNode pf sched pod nodes = Inr (Some obj)"
  shows "\<exists>n \<in> set (suitableNodes pf pod nodes). obj = NodeObj n
           \<and> 0 < calculateNodeScore pf sched pod n
           \<and> (\<forall>m \<in> set (suitableNodes pf pod nodes).
                 calculateNodeScore pf sched pod m \<le> calculateNodeScore pf sched pod n)"
proof -
  obtain b' bs' where r: "scoreNodes pf sched pod (suitableNodes pf pod nodes) (None, 0) = (b', bs')"
    by (cases "scoreNodes pf sched pod (suitableNodes pf pod nodes) (None, 0)")
  from assms r have "b' = Some obj"
    by (auto simp: findBestNode_def Let_def split: if_splits)
  with scoreNodes_result [OF r] show ?thesis by auto
qed

text \<open>
  C5 is violated by the code. A ready node without allocatable resources scores 0; the
  second pass of \<open>findBestNode\<close> keeps a node only when its score is strictly greater
  than the initial \<open>bestScore\<close> of 0, so the node passes all four filters and
  \<open>findBestNode\<close> still returns a nil node with a nil error; \<open>schedulePod\<close> then calls
  \<open>GetName\<close> on it, and so does a whole pass of \<open>processUnscheduledPods\<close> over a store
  that holds the pod and the node.
\<close>

theorem C5_nil_node_when_scores_not_positive:
  "suitableNodes sscanfTable (plainPod ''default'' ''p1'' [] 0) [NodeObj (mkNode ''n1'' [] [])]
     = [mkNode ''n1'' [] []]
   \<and> calculateNodeScore sscanfTable [] (plainPod ''default'' ''p1'' [] 0) (mkNode ''n1'' [] []) = 0
   \<and> findBestNode sscanfTable [] (plainPod ''default'' ''p1'' [] 0) [NodeObj (mkNode ''n1'' [] [])]
     = Inr None
   \<and> schedulePod tickClock sscanfTable (plainPod ''default'' ''p1'' [] 0) [NodeObj (mkNode ''n1'' [] [])]
        ([], storeWith ''Pod'' [(''default/p1'', PodObj (plainPod ''default'' ''p1'' [] 0))], 0)
     = (Some NilDereference, [],
        storeWith ''Pod'' [(''default/p1'', PodObj (plainPod ''default'' ''p1'' [] 0))], 0)
   \<and> processUnscheduledPods tickClock sscanfTable
        ([], storeWith2 ''Pod'' [(''default/p1'', PodObj (plainPod ''default'' ''p1'' [] 0))]
                        ''Node'' [(''/n1'', NodeObj (mkNode ''n1'' [] []))], 0)
     = ([NilDereference], [],
        storeWith2 ''Pod'' [(''default/p1'', PodObj (plainPod ''default'' ''p1'' [] 0))]
                   ''Node'' [(''/n1'', NodeObj (mkNode ''n1'' [] []))], 0)"
  by (simp add: processUnscheduledPods_def List_def storeWith2_def NewMemoryStore_def PodPending_def
      schedulePod_def findBestNode_def calculateNodeScore_def
      isNodeReady_def matchesNodeSelector_def hasSufficientResources_def
      matchesTaintsAndTolerations_def mkNode_def plainPod_def nginxSpec_def emptyMeta_def)

section \<open>The API server\<close>

lemma Create_fails_iff:
  "(\<exists>err. Create now1 now2 obj s = Inl err)
     \<longleftrightarrow> (\<exists>old. Get (GetKind obj) (GetNamespace obj) (GetName obj) s = Inr old)"
  by (auto simp: Create_def Get_def Let_def split: option.splits)

text \<open>
  C9, as stated, fails: a POST whose body decodes to a pod with an empty container list
  is answered 201 and the pod is stored.
\<close>

theorem C9_no_validation_counterexample:
  "\<not> spec_validPod (emptyPod ''p1'')
   \<and> StatusCode (fst (createPod tickClock ''default'' (Some (emptyPod ''p1''))
                        (NewMemoryStore 100, 0))) = 201
   \<and> Get ''Pod'' ''default'' ''p1''
        (fst (snd (createPod tickClock ''default'' (Some (emptyPod ''p1''))
                     (NewMemoryStore 100, 0))))
     = Inr (PodObj \<lparr>pod_type = \<lparr>Kind = ''Pod'', APIVersion = ''v1alpha1''\<rparr>,
                    pod_meta = emptyMeta\<lparr>Name := ''p1'', Namespace := ''default'',
                      UID := ''1000'', ResourceVersion := ''1001'', CreationTimestamp := 1002\<rparr>,
                    pod_spec = \<lparr>Containers = [], NodeName = [], NodeSelector = []\<rparr>,
                    pod_status = \<lparr>Phase = ''Pending'', Conditions = []\<rparr>\<rparr>)"
  by (simp add: spec_validPod_def emptyPod_def emptyPodSpec_def emptyMeta_def createPod_def
      Create_def Get_def Let_def NewMemoryStore_def GetKind_def GetName_def GetNamespace_def
      objectKey_def notifyWatchers_def generateUID_def FormatInt_def digits.simps
      digit_char_def tickClock_def PodPending_def)

text \<open>
  C9 (amended): the handler validates nothing about the containers. It answers 400
  exactly when the body does not decode, and stores nothing then. A decoded pod is
  stamped with kind \<open>Pod\<close>, API version \<open>v1alpha1\<close>, the namespace of the path, a UID
  (the decimal clock reading) and phase \<open>Pending\<close>, and handed to \<open>Create\<close>. When the
  store has no pod under that namespace and name the answer is 201: the pod is stored
  as stamped, with the resource-version and creation timestamp \<open>Create\<close> adds and
  everything else (name, labels, owner references, spec, conditions) as sent, and the
  body of the answer is the stored pod. Otherwise the answer is 500 and the store is
  unchanged.
\<close>

theorem C9_createPod_responses:
  assumes "createPod clk ns decoded (s, t) = (resp, s', t')"
  shows "(decoded = None \<longrightarrow>
            resp = \<lparr>StatusCode = 400, Body = DecodeErrorText\<rparr> \<and> s' = s \<and> t' = t)
       \<and> (\<forall>pod. decoded = Some pod \<longrightarrow>
            (let stamped = pod\<lparr>pod_type := \<lparr>Kind = ''Pod'', APIVersion = ''v1alpha1''\<rparr>,
                               pod_meta := (pod_meta pod)\<lparr>Namespace := ns,
                                                           UID := FormatInt (clk t)\<rparr>,
                               pod_status := (pod_status pod)\<lparr>Phase := ''Pending''\<rparr>\<rparr>;
                 stored = stamped\<lparr>pod_meta := (pod_meta stamped)
                                   \<lparr>ResourceVersion := FormatInt (clk (t + 1)),
                                    CreationTimestamp := clk (t + 2)\<rparr>\<rparr>
             in StatusCode resp \<noteq> 400
              \<and> ((\<exists>old. Get ''Pod'' ns (Name (pod_meta pod)) s = Inr old)
                    \<longrightarrow> resp = \<lparr>StatusCode = 500, Body = ErrorText AlreadyExists\<rparr>
                      \<and> s' = s \<and> t' = t + 1)
              \<and> ((\<forall>old. Get ''Pod'' ns (Name (pod_meta pod)) s \<noteq> Inr old)
                    \<longrightarrow> resp = \<lparr>StatusCode = 201, Body = ObjectBody (PodObj stored)\<rparr>
                      \<and> Create (clk (t + 1)) (clk (t + 2)) (PodObj stamped) s
                          = Inr (PodObj stored, s')
                      \<and> Get ''Pod'' ns (Name (pod_meta pod)) s' = Inr (PodObj stored)
                      \<and> t' = t + 3)))"
proof (cases decoded)
  case None
  with assms show ?thesis by (auto simp: createPod_def)
next
  case (Some pod)
  let ?pod1 = "pod\<lparr>pod_type := \<lparr>Kind = ''Pod'', APIVersion = ''v1alpha1''\<rparr>,
                    pod_meta := (pod_meta pod)\<lparr>Namespace := ns, UID := FormatInt (clk t)\<rparr>,
                    pod_status := (pod_status pod)\<lparr>Phase := ''Pending''\<rparr>\<rparr>"
  let ?stored = "?pod1\<lparr>pod_meta := (pod_meta ?pod1)\<lparr>ResourceVersion := FormatInt (clk (t + 1)),
                      CreationTimestamp := clk (t + 2)\<rparr>\<rparr>"
  have k: "GetKind (PodObj ?pod1) = ''Pod''" "GetNamespace (PodObj ?pod1) = ns"
    "GetName (PodObj ?pod1) = Name (pod_meta pod)"
    by (simp_all add: GetKind_def GetNamespace_def GetName_def)
  have run: "createPod clk ns decoded (s, t) =
     (case Create (clk (t + 1)) (clk (t + 2)) (PodObj ?pod1) s of
        Inl err \<Rightarrow> (\<lparr>StatusCode = 500, Body = ErrorText err\<rparr>, s, t + 1)
      | Inr (obj', s1) \<Rightarrow> (\<lparr>StatusCode = 201, Body = ObjectBody obj'\<rparr>, s1, t + 3))"
    using Some by (simp add: createPod_def Let_def generateUID_def PodPending_def)
  show ?thesis
  proof (cases "Create (clk (t + 1)) (clk (t + 2)) (PodObj ?pod1) s")
    case (Inl err)
    then have present: "\<exists>old. Get ''Pod'' ns (Name (pod_meta pod)) s = Inr old"
      using Create_fails_iff [of "clk (t + 1)" "clk (t + 2)" "PodObj ?pod1" s]
      by (simp only: k) blast
    from Inl have "err = AlreadyExists"
      by (auto simp: Create_def Let_def split: if_splits)
    with Inl run assms have "resp = \<lparr>StatusCode = 500, Body = ErrorText AlreadyExists\<rparr>"
      "s' = s" "t' = t + 1"
      by auto
    with present Some show ?thesis by (simp add: Let_def)
  next
    case cr: (Inr r)
    obtain obj' s1 where r: "r = (obj', s1)" by (cases r)
    from cr r have c: "Create (clk (t + 1)) (clk (t + 2)) (PodObj ?pod1) s = Inr (obj', s1)"
      by simp
    from c run assms have resp: "resp = \<lparr>StatusCode = 201, Body = ObjectBody obj'\<rparr>"
      and s': "s' = s1" and t': "t' = t + 3"
      by auto
    have absent: "\<forall>old. Get ''Pod'' ns (Name (pod_meta pod)) s \<noteq> Inr old"
      using c Create_fails_iff [of "clk (t + 1)" "clk (t + 2)" "PodObj ?pod1" s]
      by (simp only: k) auto
    have obj': "obj' = PodObj ?stored"
      using c by (auto simp: Create_def Let_def split: if_splits)
    have g: "Get ''Pod'' ns (Name (pod_meta pod)) s' = Inr (PodObj ?stored)"
      using Create_Get(1) [OF c] by (simp only: k obj' s')
    from c obj' s' have c': "Create (clk (t + 1)) (clk (t + 2)) (PodObj ?pod1) s
        = Inr (PodObj ?stored, s')"
      by simp
    from Some resp absent g c' t' obj' show ?thesis by (simp add: Let_def)
  qed
qed

theorem C9_createPod_witness:
  "fst (createPod tickClock ''default'' (Some (emptyPod ''p1'')) (NewMemoryStore 100, 0))
     = \<lparr>StatusCode = 201,
        Body = ObjectBody (PodObj
          \<lparr>pod_type = \<lparr>Kind = ''Pod'', APIVersion = ''v1alpha1''\<rparr>,
           pod_meta = emptyMeta\<lparr>Name := ''p1'', Namespace := ''default'', UID := ''1000'',
                                ResourceVersion := ''1001'', CreationTimestamp := 1002\<rparr>,
           pod_spec = emptyPodSpec,
           pod_status = \<lparr>Phase = ''Pending'', Conditions = []\<rparr>\<rparr>)\<rparr>
   \<and> storedPod ''default'' ''p1''
        (fst (snd (createPod tickClock ''default'' (Some (emptyPod ''p1''))
                     (NewMemoryStore 100, 0))))
       = Some \<lparr>pod_type = \<lparr>Kind = ''Pod'', APIVersion = ''v1alpha1''\<rparr>,
               pod_meta = emptyMeta\<lparr>Name := ''p1'', Namespace := ''default'', UID := ''1000'',
                                    ResourceVersion := ''1001'', CreationTimestamp := 1002\<rparr>,
               pod_spec = emptyPodSpec,
               pod_status = \<lparr>Phase = ''Pending'', Conditions = []\<rparr>\<rparr>
   \<and> snd (snd (createPod tickClock ''default'' (Some (emptyPod ''p1''))
                 (NewMemoryStore 100, 0))) = 3
   \<and> fst (createPod tickClock ''default'' (Some (emptyPod ''p1''))
            (storeWith ''Pod'' [(''default/p1'', PodObj (plainPod ''default'' ''p1'' ''1000'' 1000))], 0))
     = \<lparr>StatusCode = 500, Body = ErrorText AlreadyExists\<rparr>
   \<and> fst (createPod tickClock ''default'' None (NewMemoryStore 100, 0))
     = \<lparr>StatusCode = 400, Body = DecodeErrorText\<rparr>"
proof -
  let ?r = "createPod tickClock ''default'' (Some (emptyPod ''p1'')) (NewMemoryStore 100, 0)"
  let ?full = "storeWith ''Pod'' [(''default/p1'', PodObj (plainPod ''default'' ''p1'' ''1000'' 1000))]"
  let ?r2 = "createPod tickClock ''default'' (Some (emptyPod ''p1'')) (?full, 0)"
  let ?r3 = "createPod tickClock ''default'' None (NewMemoryStore 100, 0)"
  obtain resp s' t' where h: "?r = (resp, s', t')" by (cases ?r)
  obtain resp2 s2 t2 where h2: "?r2 = (resp2, s2, t2)" by (cases ?r2)
  obtain resp3 s3 t3 where h3: "?r3 = (resp3, s3, t3)" by (cases ?r3)
  have n: "Name (pod_meta (emptyPod ''p1'')) = ''p1''"
    by (simp add: emptyPod_def emptyMeta_def)
  have absent: "\<forall>old. Get ''Pod'' ''default'' ''p1'' (NewMemoryStore 100) \<noteq> Inr old"
    by (simp add: Get_def NewMemoryStore_def)
  have present: "\<exists>old. Get ''Pod'' ''default'' ''p1'' ?full = Inr old"
    by (simp add: Get_def storeWith_def objectKey_def)
  have f: "FormatInt (tickClock 0) = ''1000''" "FormatInt (tickClock (Suc 0)) = ''1001''"
    "tickClock (Suc (Suc 0)) = 1002"
    by (simp_all add: tickClock_def FormatInt_def digits.simps digit_char_def)
  from C9_createPod_responses [OF h] absent
  have a: "resp = \<lparr>StatusCode = 201,
        Body = ObjectBody (PodObj
          \<lparr>pod_type = \<lparr>Kind = ''Pod'', APIVersion = ''v1alpha1''\<rparr>,
           pod_meta = emptyMeta\<lparr>Name := ''p1'', Namespace := ''default'', UID := ''1000'',
                                ResourceVersion := ''1001'', CreationTimestamp := 1002\<rparr>,
           pod_spec = emptyPodSpec,
           pod_status = \<lparr>Phase = ''Pending'', Conditions = []\<rparr>\<rparr>)\<rparr>"
    and b: "Get ''Pod'' ''default'' ''p1'' s' = Inr (PodObj
          \<lparr>pod_type = \<lparr>Kind = ''Pod'', APIVersion = ''v1alpha1''\<rparr>,
           pod_meta = emptyMeta\<lparr>Name := ''p1'', Namespace := ''default'', UID := ''1000'',
                                ResourceVersion := ''1001'', CreationTimestamp := 1002\<rparr>,
           pod_spec = emptyPodSpec,
           pod_status = \<lparr>Phase = ''Pending'', Conditions = []\<rparr>\<rparr>)"
    and c: "t' = 3"
    by (simp_all add: Let_def n f emptyPod_def emptyMeta_def)
  from C9_createPod_responses [OF h2] present
  have d: "resp2 = \<lparr>StatusCode = 500, Body = ErrorText AlreadyExists\<rparr>"
    by (simp add: Let_def n)
  from C9_createPod_responses [OF h3]
  have e: "resp3 = \<lparr>StatusCode = 400, Body = DecodeErrorText\<rparr>"
    by simp
  from b have "storedPod ''default'' ''p1'' s' = Some
          \<lparr>pod_type = \<lparr>Kind = ''Pod'', APIVersion = ''v1alpha1''\<rparr>,
           pod_meta = emptyMeta\<lparr>Name := ''p1'', Namespace := ''default'', UID := ''1000'',
                                ResourceVersion := ''1001'', CreationTimestamp := 1002\<rparr>,
           pod_spec = emptyPodSpec,
           pod_status = \<lparr>Phase = ''Pending'', Conditions = []\<rparr>\<rparr>"
    by (simp add: storedPod_def)
  with a c d e h h2 h3 show ?thesis by simp
qed

text \<open>
  C10 is violated by the code. \<open>listAllPods\<close> is documented as listing pods across all
  namespaces, but its body lists the namespace \<open>default\<close> only: with one pod in
  \<open>default\<close> and one in \<open>prod\<close>, the answer has the first pod alone, while \<open>List\<close> with
  the empty namespace returns both.
\<close>

theorem C10_listAllPods_default_only:
  "listAllPods (storeWith ''Pod''
       [(''default/p1'', PodObj (plainPod ''default'' ''p1'' ''1000'' 1000)),
        (''prod/p2'', PodObj (plainPod ''prod'' ''p2'' ''1001'' 1001))])
     = \<lparr>StatusCode = 200, Body = PodListBody [plainPod ''default'' ''p1'' ''1000'' 1000]\<rparr>
   \<and> podsOf (List ''Pod'' [] (storeWith ''Pod''
       [(''default/p1'', PodObj (plainPod ''default'' ''p1'' ''1000'' 1000)),
        (''prod/p2'', PodObj (plainPod ''prod'' ''p2'' ''1001'' 1001))]))
     = [plainPod ''default'' ''p1'' ''1000'' 1000, plainPod ''prod'' ''p2'' ''1001'' 1001]"
  by (simp add: listAllPods_def List_def storeWith_def keyInNamespace_def)

section \<open>The ReplicaSet controller on a steady state\<close>

lemma int32_id: "- (2 ^ 31) \<le> x \<Longrightarrow> x < 2 ^ 31 \<Longrightarrow> int32 x = x"
  by (simp add: int32_def)

lemma ensurePods_steady:
  assumes "int32 (int (length (retainedPods rs s))) = Replicas (rs_spec rs)"
  shows "ensurePods clk rs (s, t) = ([], retainedPods rs s, s, t)"
  using assms by (simp add: ensurePods_def Let_def)

lemma updateReplicaSetStatus_same:
  assumes "st_Replicas (rs_status rs) = int32 (int (length pods))"
    and "st_ReadyReplicas (rs_status rs)
           = int32 (int (length (filter (\<lambda>pod. Phase (pod_status pod) = PodRunning) pods)))"
    and "st_AvailableReplicas (rs_status rs) = st_ReadyReplicas (rs_status rs)"
  shows "updateReplicaSetStatus clk rs pods (s, t) =
           (case Update (clk t) (ReplicaSetObj rs) s of
              Inl err \<Rightarrow> (Some err, s, t)
            | Inr (obj', s') \<Rightarrow> (None, s', t + 1))"
proof -
  have "rs\<lparr>rs_status := (rs_status rs)
               \<lparr>st_Replicas := int32 (int (length pods)),
                st_ReadyReplicas := int32 (int (length (filter (\<lambda>pod. Phase (pod_status pod) = PodRunning) pods))),
                st_AvailableReplicas := int32 (int (length (filter (\<lambda>pod. Phase (pod_status pod) = PodRunning) pods)))\<rparr>\<rparr> = rs"
    using assms by simp
  then show ?thesis by (simp add: updateReplicaSetStatus_def Let_def)
qed

lemma syncReplicaSet_steady:
  assumes "int32 (int (length (retainedPods rs s))) = Replicas (rs_spec rs)"
    and "st_Replicas (rs_status rs) = int32 (int (length (retainedPods rs s)))"
    and "st_ReadyReplicas (rs_status rs)
           = int32 (int (length (filter (\<lambda>pod. Phase (pod_status pod) = PodRunning)
                                   (retainedPods rs s))))"
    and "st_AvailableReplicas (rs_status rs) = st_ReadyReplicas (rs_status rs)"
  shows "syncReplicaSet clk rs (s, t) =
           (case Update (clk t) (ReplicaSetObj rs) s of
              Inl err \<Rightarrow> ([err], s, t)
            | Inr (obj', s') \<Rightarrow> ([], s', t + 1))"
  by (simp add: syncReplicaSet_def ensurePods_steady [OF assms(1)]
      updateReplicaSetStatus_same [OF assms(2,3,4)] split: sum.splits)

lemma steadyCluster_retained:
  "retainedPods (steadyReplicaSet rv) (steadyCluster rv')
     = [mkOwnedPod ''default'' ''web-1'' ''Running'' ''web'' ''uid-1'']"
  by (simp add: retainedPods_def steadyCluster_def storeWith2_def List_def
      podBelongsToReplicaSet_def mkOwnedPod_def steadyReplicaSet_def mkReplicaSet_def
      emptyMeta_def NewMemoryStore_def)

lemma steadyCluster_list:
  "replicaSetsOf (List ''ReplicaSet'' [] (steadyCluster rv)) = [steadyReplicaSet rv]"
  by (simp add: steadyCluster_def storeWith2_def List_def NewMemoryStore_def)

lemma steadyCluster_update:
  "Update now (ReplicaSetObj (steadyReplicaSet rv)) (steadyCluster rv)
     = Inr (ReplicaSetObj (steadyReplicaSet (FormatInt now)), steadyCluster (FormatInt now))"
  by (simp add: Update_def Let_def steadyCluster_def storeWith2_def NewMemoryStore_def
      steadyReplicaSet_def mkReplicaSet_def emptyMeta_def GetKind_def GetName_def
      GetNamespace_def objectKey_def notifyWatchers_def fun_upd_twist)

lemma steadyCluster_sync:
  "syncReplicaSets clk (steadyCluster rv, t) = ([], steadyCluster (FormatInt (clk t)), t + 1)"
proof -
  have steady: "int32 (int (length (retainedPods (steadyReplicaSet rv) (steadyCluster rv))))
                  = Replicas (rs_spec (steadyReplicaSet rv))"
    unfolding steadyCluster_retained
    by (simp add: int32_def steadyReplicaSet_def mkReplicaSet_def)
  have st: "st_Replicas (rs_status (steadyReplicaSet rv))
              = int32 (int (length (retainedPods (steadyReplicaSet rv) (steadyCluster rv))))"
    "st_ReadyReplicas (rs_status (steadyReplicaSet rv))
       = int32 (int (length (filter (\<lambda>pod. Phase (pod_status pod) = PodRunning)
                               (retainedPods (steadyReplicaSet rv) (steadyCluster rv)))))"
    "st_AvailableReplicas (rs_status (steadyReplicaSet rv))
       = st_ReadyReplicas (rs_status (steadyReplicaSet rv))"
    unfolding steadyCluster_retained
    by (simp_all add: int32_def steadyReplicaSet_def mkOwnedPod_def PodRunning_def)
  show ?thesis
    by (simp add: syncReplicaSets_def steadyCluster_list
        syncReplicaSet_steady [OF steady st] steadyCluster_update)
qed

text \<open>
  C7, as stated, fails. In the steady cluster (ReplicaSet \<open>web\<close> wanting one replica, one
  running pod owned by it, status counts already 1/1/1) every \<open>Sync\<close> updates the
  ReplicaSet in the store: after a first \<open>Sync\<close> its resource-version is 2000, after the
  second it is 2001.
\<close>

theorem C7_steady_sync_writes_counterexample:
  "syncReplicaSets laterClock (steadyCluster ''1000'', 0) = ([], steadyCluster ''2000'', 1)
   \<and> syncReplicaSets laterClock (steadyCluster ''2000'', 1) = ([], steadyCluster ''2001'', 2)
   \<and> Get ''ReplicaSet'' ''default'' ''web'' (steadyCluster ''2000'')
       = Inr (ReplicaSetObj (steadyReplicaSet ''2000''))
   \<and> Get ''ReplicaSet'' ''default'' ''web'' (steadyCluster ''2001'')
       = Inr (ReplicaSetObj (steadyReplicaSet ''2001''))
   \<and> GetResourceVersion (ReplicaSetObj (steadyReplicaSet ''2000'')) = ''2000''
   \<and> GetResourceVersion (ReplicaSetObj (steadyReplicaSet ''2001'')) = ''2001''
   \<and> ''2000'' \<noteq> ''2001''"
proof -
  have f: "FormatInt (laterClock 0) = ''2000''" "FormatInt (laterClock (Suc 0)) = ''2001''"
    by (simp_all add: laterClock_def FormatInt_def digits.simps digit_char_def)
  have g: "Get ''ReplicaSet'' ''default'' ''web'' (steadyCluster rv)
             = Inr (ReplicaSetObj (steadyReplicaSet rv))" for rv
    by (simp add: Get_def steadyCluster_def storeWith2_def objectKey_def)
  have v: "GetResourceVersion (ReplicaSetObj (steadyReplicaSet rv)) = rv" for rv
    by (simp add: GetResourceVersion_def steadyReplicaSet_def emptyMeta_def)
  show ?thesis
    using steadyCluster_sync [of laterClock "''1000''" 0]
      steadyCluster_sync [of laterClock "''2000''" 1]
    by (simp add: f g v)
qed

lemma Update_succeeds:
  assumes "Get (GetKind obj) (GetNamespace obj) (GetName obj) s = Inr old"
  shows "\<exists>s'. Update now obj s = Inr (SetResourceVersion (FormatInt now) obj, s')"
  using assms by (auto simp: Update_def Get_def Let_def split: option.splits)

lemma Update_objects_other:
  assumes "Update now obj s = Inr (obj', s')" and "kind \<noteq> GetKind obj"
  shows "objects s' kind = objects s kind"
  using assms by (auto simp: Update_def Let_def split: option.splits if_splits)

text \<open>
  C7 (amended): on a steady state (the ReplicaSet is stored, the number of pods it
  retains equals \<open>spec.replicas\<close> and its status already holds the counts) a sync of
  the ReplicaSet creates and deletes nothing and logs no error, but it performs one store
  write: an \<open>Update\<close> of the ReplicaSet that leaves spec and status as they were and
  replaces its resource-version by the clock reading. Every other object, and so every
  pod, is stored as before.
\<close>

theorem C7_steady_sync_is_one_update:
  assumes "Kind (rs_type rs) = ''ReplicaSet''"
    and "Get ''ReplicaSet'' (Namespace (rs_meta rs)) (Name (rs_meta rs)) s = Inr (ReplicaSetObj rs)"
    and "int32 (int (length (retainedPods rs s))) = Replicas (rs_spec rs)"
    and "st_Replicas (rs_status rs) = int32 (int (length (retainedPods rs s)))"
    and "st_ReadyReplicas (rs_status rs)
           = int32 (int (length (filter (\<lambda>pod. Phase (pod_status pod) = PodRunning)
                                   (retainedPods rs s))))"
    and "st_AvailableReplicas (rs_status rs) = st_ReadyReplicas (rs_status rs)"
  shows "\<exists>s'. syncReplicaSet clk rs (s, t) = ([], s', t + 1)
           \<and> Get ''ReplicaSet'' (Namespace (rs_meta rs)) (Name (rs_meta rs)) s'
               = Inr (ReplicaSetObj (rs\<lparr>rs_meta := (rs_meta rs)\<lparr>ResourceVersion := FormatInt (clk t)\<rparr>\<rparr>))
           \<and> (\<forall>kind ns n.
                 kind \<noteq> ''ReplicaSet''
                 \<or> objectKey ns n \<noteq> objectKey (Namespace (rs_meta rs)) (Name (rs_meta rs))
                 \<longrightarrow> Get kind ns n s' = Get kind ns n s)
           \<and> List ''Pod'' [] s' = List ''Pod'' [] s"
proof -
  have k: "GetKind (ReplicaSetObj rs) = ''ReplicaSet''"
    "GetNamespace (ReplicaSetObj rs) = Namespace (rs_meta rs)"
    "GetName (ReplicaSetObj rs) = Name (rs_meta rs)"
    using assms(1) by (simp_all add: GetKind_def GetNamespace_def GetName_def)
  have "Get (GetKind (ReplicaSetObj rs)) (GetNamespace (ReplicaSetObj rs))
          (GetName (ReplicaSetObj rs)) s = Inr (ReplicaSetObj rs)"
    using assms(2) by (simp only: k)
  from Update_succeeds [OF this, of "clk t"]
  obtain s' where u: "Update (clk t) (ReplicaSetObj rs) s
      = Inr (SetResourceVersion (FormatInt (clk t)) (ReplicaSetObj rs), s')"
    by blast
  have sync: "syncReplicaSet clk rs (s, t) = ([], s', t + 1)"
    by (simp add: syncReplicaSet_steady [OF assms(3,4,5,6)] u)
  have g: "Get ''ReplicaSet'' (Namespace (rs_meta rs)) (Name (rs_meta rs)) s'
             = Inr (ReplicaSetObj (rs\<lparr>rs_meta := (rs_meta rs)\<lparr>ResourceVersion := FormatInt (clk t)\<rparr>\<rparr>))"
    using Update_Get(1) [OF u] by (simp add: k)
  have others: "\<forall>kind ns n.
                 kind \<noteq> ''ReplicaSet''
                 \<or> objectKey ns n \<noteq> objectKey (Namespace (rs_meta rs)) (Name (rs_meta rs))
                 \<longrightarrow> Get kind ns n s' = Get kind ns n s"
    using Update_other [OF u] by (simp only: k) blast
  have "objects s' ''Pod'' = objects s ''Pod''"
    using Update_objects_other [OF u, of "''Pod''"] by (simp add: k)
  then have pods: "List ''Pod'' [] s' = List ''Pod'' [] s"
    by (simp add: List_def)
  from sync g others pods show ?thesis by blast
qed

theorem C7_steady_sync_witness:
  "syncReplicaSet laterClock (steadyReplicaSet ''1000'') (steadyCluster ''1000'', 0)
     = ([], steadyCluster ''2000'', 1)
   \<and> Get ''ReplicaSet'' ''default'' ''web'' (steadyCluster ''2000'')
     = Inr (ReplicaSetObj (steadyReplicaSet ''2000''))
   \<and> List ''Pod'' [] (steadyCluster ''2000'') = List ''Pod'' [] (steadyCluster ''1000'')"
proof -
  let ?rs = "steadyReplicaSet ''1000''"
  let ?s = "steadyCluster ''1000''"
  have a1: "Kind (rs_type ?rs) = ''ReplicaSet''"
    by (simp add: steadyReplicaSet_def mkReplicaSet_def)
  have n: "Namespace (rs_meta ?rs) = ''default''" "Name (rs_meta ?rs) = ''web''"
    by (simp_all add: steadyReplicaSet_def emptyMeta_def)
  have a2: "Get ''ReplicaSet'' (Namespace (rs_meta ?rs)) (Name (rs_meta ?rs)) ?s
              = Inr (ReplicaSetObj ?rs)"
    unfolding n by (simp add: Get_def steadyCluster_def storeWith2_def objectKey_def)
  have a3: "int32 (int (length (retainedPods ?rs ?s))) = Replicas (rs_spec ?rs)"
    unfolding steadyCluster_retained
    by (simp add: int32_def steadyReplicaSet_def mkReplicaSet_def)
  have a4: "st_Replicas (rs_status ?rs) = int32 (int (length (retainedPods ?rs ?s)))"
    unfolding steadyCluster_retained by (simp add: int32_def steadyReplicaSet_def)
  have a5: "st_ReadyReplicas (rs_status ?rs)
       = int32 (int (length (filter (\<lambda>pod. Phase (pod_status pod) = PodRunning)
                               (retainedPods ?rs ?s))))"
    unfolding steadyCluster_retained
    by (simp add: int32_def steadyReplicaSet_def mkOwnedPod_def PodRunning_def)
  have a6: "st_AvailableReplicas (rs_status ?rs) = st_ReadyReplicas (rs_status ?rs)"
    by (simp add: steadyReplicaSet_def)
  have f: "FormatInt (laterClock 0) = ''2000''"
    by (simp add: laterClock_def FormatInt_def digits.simps digit_char_def)
  have same: "?rs\<lparr>rs_meta := (rs_meta ?rs)\<lparr>ResourceVersion := ''2000''\<rparr>\<rparr> = steadyReplicaSet ''2000''"
    by (simp add: steadyReplicaSet_def)
  from C7_steady_sync_is_one_update [OF a1 a2 a3 a4 a5 a6, of laterClock 0]
  obtain s' where s': "syncReplicaSet laterClock ?rs (?s, 0) = ([], s', 0 + 1)"
    and g: "Get ''ReplicaSet'' (Namespace (rs_meta ?rs)) (Name (rs_meta ?rs)) s'
             = Inr (ReplicaSetObj (?rs\<lparr>rs_meta := (rs_meta ?rs)\<lparr>ResourceVersion := FormatInt (laterClock 0)\<rparr>\<rparr>))"
    and l: "List ''Pod'' [] s' = List ''Pod'' [] ?s"
    by blast
  have "syncReplicaSet laterClock ?rs (?s, 0) = ([], steadyCluster ''2000'', 1)"
    by (simp add: syncReplicaSet_steady [OF a3 a4 a5 a6] steadyCluster_update f)
  with s' have eq: "s' = steadyCluster ''2000''" by simp
  from s' g l show ?thesis
    unfolding eq n f same by simp
qed

section \<open>The ReplicaSet controller: scaling\<close>

lemma update_append: "map_of al k = None \<Longrightarrow> AList.update k v al = al @ [(k, v)]"
  by (induction al) (auto split: if_splits)

lemma List_all_namespaces:
  "List kind [] s = (case objects s kind of None \<Rightarrow> [] | Some m \<Rightarrow> map snd m)"
  by (simp add: List_def split: option.splits)

lemma podsOf_append [simp]: "podsOf (xs @ ys) = podsOf xs @ podsOf ys"
  by (induction xs rule: podsOf.induct) simp_all

lemma Create_appends:
  assumes "Create now1 now2 obj s = Inr (obj', s')"
  shows "List (GetKind obj) [] s' = List (GetKind obj) [] s @ [obj']"
    and "obj' = SetCreationTimestamp now2 (SetResourceVersion (FormatInt now1) obj)"
  using assms
  by (auto simp: Create_def Let_def List_all_namespaces update_append
      split: option.splits if_splits)

lemma rs_createPod_ok:
  assumes "rs_createPod clk rs (s, t) = (None, s', t')"
  shows "List ''Pod'' [] s' = List ''Pod'' [] s
            @ [PodObj (createdPod rs (clk t) (clk (t + 1)) (clk (t + 2)))]"
    and "t' = t + 3"
proof -
  let ?pod = "podFromTemplate rs (clk t)"
  from assms obtain obj' where
    c: "Create (clk (t + 1)) (clk (t + 2)) (PodObj ?pod) s = Inr (obj', s')" and t': "t' = t + 3"
    by (auto simp: rs_createPod_def split: sum.splits)
  have k: "GetKind (PodObj ?pod) = ''Pod''"
    by (simp add: GetKind_def podFromTemplate_def)
  from Create_appends [OF c] show "List ''Pod'' [] s' = List ''Pod'' [] s
            @ [PodObj (createdPod rs (clk t) (clk (t + 1)) (clk (t + 2)))]"
    by (simp add: k createdPod_def)
  from t' show "t' = t + 3" .
qed


lemma podsOf_map_PodObj [simp]: "podsOf (map PodObj ps) = ps"
  by (induction ps) simp_all

lemma createdPod_fields:
  "OwnerReferences (pod_meta (createdPod rs now rvNow tsNow))
     = [\<lparr>ref_APIVersion = APIVersion (rs_type rs), ref_Kind = Kind (rs_type rs),
         ref_Name = Name (rs_meta rs), ref_UID = UID (rs_meta rs)\<rparr>]"
  "Phase (pod_status (createdPod rs now rvNow tsNow)) = ''Pending''"
  "pod_spec (createdPod rs now rvNow tsNow) = tmpl_spec (Template (rs_spec rs))"
  "Name (pod_meta (createdPod rs now rvNow tsNow)) = Name (rs_meta rs) @ ''-'' @ FormatInt now"
  "Namespace (pod_meta (createdPod rs now rvNow tsNow))
     = Namespace (tmpl_meta (Template (rs_spec rs)))"
  "Labels (pod_meta (createdPod rs now rvNow tsNow)) = Labels (tmpl_meta (Template (rs_spec rs)))"
  by (simp_all add: createdPod_def podFromTemplate_def PodPending_def)

lemma keyed_delete:
  "list_all (\<lambda>(key, obj). key = objKey obj) m \<Longrightarrow>
     map snd (AList.delete k m) = filter (\<lambda>obj. objKey obj \<noteq> k) (map snd m)"
  by (induction m) (auto simp: AList.delete_eq)

lemma keyed_delete_all:
  "list_all (\<lambda>(key, obj). key = objKey obj) m \<Longrightarrow>
     list_all (\<lambda>(key, obj). key = objKey obj) (AList.delete k m)"
  by (induction m) (auto simp: AList.delete_eq)

lemma Delete_pods:
  assumes "Delete ''Pod'' ns name s = Inr s'" and "podsKeyed s"
  shows "podsKeyed s'"
    and "List ''Pod'' [] s' = filter (\<lambda>obj. objKey obj \<noteq> objectKey ns name) (List ''Pod'' [] s)"
proof -
  from assms(1) obtain m obj where m: "objects s ''Pod'' = Some m"
    and s': "objects s' ''Pod'' = (if AList.delete (objectKey ns name) m = [] then None
                                   else Some (AList.delete (objectKey ns name) m))"
    by (auto simp: Delete_def Let_def split: option.splits)
  from assms(2) m have d: "distinct (map fst m)"
    and a: "list_all (\<lambda>(key, obj). key = objKey obj) m"
    by (simp_all add: podsKeyed_def)
  show "podsKeyed s'"
    using s' d a by (simp add: podsKeyed_def distinct_delete keyed_delete_all)
  have "List ''Pod'' [] s' = map snd (AList.delete (objectKey ns name) m)"
    using s' by (simp add: List_all_namespaces)
  also have "\<dots> = filter (\<lambda>obj. objKey obj \<noteq> objectKey ns name) (map snd m)"
    by (rule keyed_delete [OF a])
  finally show "List ''Pod'' [] s'
      = filter (\<lambda>obj. objKey obj \<noteq> objectKey ns name) (List ''Pod'' [] s)"
    using m by (simp add: List_all_namespaces)
qed








lemma ensurePods_up:
  assumes "int (length (retainedPods rs s)) < Replicas (rs_spec rs)"
    and "Replicas (rs_spec rs) < 2 ^ 31"
  shows "ensurePods clk rs (s, t) =
           (case createPods clk rs (nat (Replicas (rs_spec rs) - int (length (retainedPods rs s)))) (s, t) of
              (errs, s', t') \<Rightarrow> (errs, retainedPods rs s, s', t'))"
proof -
  have c: "int32 (int (length (retainedPods rs s))) = int (length (retainedPods rs s))"
    using assms by (intro int32_id) auto
  have d: "int32 (Replicas (rs_spec rs) - int (length (retainedPods rs s)))
             = Replicas (rs_spec rs) - int (length (retainedPods rs s))"
    using assms by (intro int32_id) auto
  show ?thesis
    using assms(1) by (simp add: ensurePods_def Let_def c d split: prod.splits)
qed




lemma keyed_update_all:
  "list_all (\<lambda>(key, obj). key = objKey obj) m \<Longrightarrow> k = objKey v \<Longrightarrow>
     list_all (\<lambda>(key, obj). key = objKey obj) (AList.update k v m)"
  by (induction m) auto

lemma objKey_stamped [simp]:
  "objKey (SetResourceVersion v obj) = objKey obj"
  "objKey (SetCreationTimestamp t obj) = objKey obj"
  by (simp_all add: objKey_def)

text \<open>
  The key invariant holds in the empty store and is kept by every write of the store.
\<close>

lemma podsKeyed_invariant:
  "podsKeyed (NewMemoryStore n)"
  "Create now1 now2 obj s = Inr (obj', s') \<Longrightarrow> podsKeyed s \<Longrightarrow> podsKeyed s'"
  "Update now obj s = Inr (obj', s') \<Longrightarrow> podsKeyed s \<Longrightarrow> podsKeyed s'"
  "Delete kind ns name s = Inr s' \<Longrightarrow> podsKeyed s \<Longrightarrow> podsKeyed s'"
proof -
  show "podsKeyed (NewMemoryStore n)"
    by (simp add: podsKeyed_def NewMemoryStore_def)
  show "podsKeyed s'" if "Create now1 now2 obj s = Inr (obj', s')" "podsKeyed s"
    using that
    by (auto simp: Create_def Let_def podsKeyed_def distinct_update keyed_update_all
        objKey_def [symmetric] split: option.splits if_splits)
  show "podsKeyed s'" if "Update now obj s = Inr (obj', s')" "podsKeyed s"
    using that
    by (auto simp: Update_def Let_def podsKeyed_def distinct_update keyed_update_all
        objKey_def [symmetric] split: option.splits if_splits)
  show "podsKeyed s'" if d: "Delete kind ns name s = Inr s'" and k: "podsKeyed s"
  proof (cases "kind = ''Pod''")
    case True
    with d k show ?thesis using Delete_pods(1) by blast
  next
    case False
    with d have "objects s' ''Pod'' = objects s ''Pod''"
      by (auto simp: Delete_def Let_def split: option.splits)
    with k show ?thesis by (simp add: podsKeyed_def)
  qed
qed



text \<open>
  A generated name that collides is not regenerated: with a clock that returns the same
  reading twice, the second \<open>Create\<close> fails with \<open>AlreadyExists\<close>, the failure is logged
  and one pod is stored where two were wanted.
\<close>

lemma ensurePods_collision_not_retried:
  "ensurePods constClock (mkReplicaSet ''default'' ''web'' ''uid-1'' 2 nginxSpec)
       (NewMemoryStore 100, 0)
     = ([AlreadyExists], [],
        storeWith ''Pod'' [(''/web-5'',
          PodObj (createdPod (mkReplicaSet ''default'' ''web'' ''uid-1'' 2 nginxSpec) 5 5 5))],
        4)"
proof -
  let ?rs = "mkReplicaSet ''default'' ''web'' ''uid-1'' 2 nginxSpec"
  let ?s1 = "storeWith ''Pod'' [(''/web-5'', PodObj (createdPod ?rs 5 5 5))]"
  have r: "retainedPods ?rs (NewMemoryStore 100) = []"
    by (simp add: retainedPods_def List_def NewMemoryStore_def)
  have n: "Replicas (rs_spec ?rs) = 2" by (simp add: mkReplicaSet_def)
  have c1: "Create 5 5 (PodObj (podFromTemplate ?rs 5)) (NewMemoryStore 100)
             = Inr (PodObj (createdPod ?rs 5 5 5), ?s1)"
    by (simp add: Create_def Let_def createdPod_def podFromTemplate_def mkReplicaSet_def
        emptyMeta_def NewMemoryStore_def storeWith_def GetKind_def GetName_def GetNamespace_def
        objectKey_def notifyWatchers_def FormatInt_def digits.simps digit_char_def)
  have c2: "Create 5 5 (PodObj (podFromTemplate ?rs 5)) ?s1 = Inl AlreadyExists"
    by (simp add: Create_def Let_def createdPod_def podFromTemplate_def mkReplicaSet_def
        emptyMeta_def NewMemoryStore_def storeWith_def GetKind_def GetName_def GetNamespace_def
        objectKey_def FormatInt_def digits.simps digit_char_def)
  have e: "ensurePods constClock ?rs (NewMemoryStore 100, 0)
             = (case createPods constClock ?rs (nat (Replicas (rs_spec ?rs)
                        - int (length (retainedPods ?rs (NewMemoryStore 100))))) (NewMemoryStore 100, 0) of
                  (errs, s', t') \<Rightarrow> (errs, retainedPods ?rs (NewMemoryStore 100), s', t'))"
    by (rule ensurePods_up) (simp_all add: r n)
  have two: "nat (Replicas (rs_spec ?rs) - int (length (retainedPods ?rs (NewMemoryStore 100))))
               = Suc (Suc 0)"
    by (simp add: r n)
  show ?thesis
    unfolding e two by (simp add: r rs_createPod_def constClock_def c1 c2)
qed

text \<open>
  A sync of a ReplicaSet is \<open>ensurePods\<close> followed by the status update, and the status
  update writes the ReplicaSet only: the pods stored after the sync are the pods
  \<open>ensurePods\<close> left.
\<close>

lemma syncReplicaSet_pods:
  assumes "Kind (rs_type rs) \<noteq> ''Pod''"
  shows "objects (fst (snd (syncReplicaSet clk rs st))) ''Pod''
           = objects (fst (snd (snd (ensurePods clk rs st)))) ''Pod''"
proof -
  obtain errs cur s1 t1 where e: "ensurePods clk rs st = (errs, cur, s1, t1)"
    by (cases "ensurePods clk rs st") auto
  let ?rs' = "rs\<lparr>rs_status := (rs_status rs)
               \<lparr>st_Replicas := int32 (int (length cur)),
                st_ReadyReplicas := int32 (int (length (filter (\<lambda>pod. Phase (pod_status pod) = PodRunning) cur))),
                st_AvailableReplicas := int32 (int (length (filter (\<lambda>pod. Phase (pod_status pod) = PodRunning) cur)))\<rparr>\<rparr>"
  have k: "''Pod'' \<noteq> GetKind (ReplicaSetObj ?rs')"
    using assms by (simp add: GetKind_def)
  show ?thesis
  proof (cases "Update (clk t1) (ReplicaSetObj ?rs') s1")
    case (Inl err)
    then show ?thesis by (simp add: syncReplicaSet_def e updateReplicaSetStatus_def Let_def)
  next
    case (Inr r)
    obtain obj' s' where r: "r = (obj', s')" by (cases r)
    from Update_objects_other [OF Inr [unfolded r] k] Inr r
    show ?thesis by (simp add: syncReplicaSet_def e updateReplicaSetStatus_def Let_def)
  qed
qed

lemma syncReplicaSet_retained:
  assumes "Kind (rs_type rs) \<noteq> ''Pod''"
  shows "retainedPods rs' (fst (snd (syncReplicaSet clk rs st)))
           = retainedPods rs' (fst (snd (snd (ensurePods clk rs st))))"
  by (simp add: retainedPods_def List_def syncReplicaSet_pods [OF assms])

section \<open>Which pods a ReplicaSet is counted with\<close>

lemma ownerRefsMatch_list_ex:
  "ownerRefsMatch refs rs
     = list_ex (\<lambda>ownerRef. ref_Kind ownerRef = ''ReplicaSet'' \<and> ref_Name ownerRef = Name (rs_meta rs)) refs"
  by (induction refs) auto

text \<open>
  C1, as stated, fails. The store holds one pod, \<open>prod/web-1\<close>, whose owner reference
  names a ReplicaSet \<open>web\<close> with UID \<open>uid-2\<close>. For the ReplicaSet \<open>default/web\<close> with UID
  \<open>uid-1\<close> and one replica wanted, \<open>ensurePods\<close> keeps that pod as the one current
  replica and creates nothing, although no owner reference of the pod carries the UID
  of the ReplicaSet.
\<close>

theorem C1_other_uid_counted_counterexample:
  "\<not> spec_ownedByNameAndUID (mkOwnedPod ''prod'' ''web-1'' ''Running'' ''web'' ''uid-2'')
       (mkReplicaSet ''default'' ''web'' ''uid-1'' 1 nginxSpec)
   \<and> List ''Pod'' []
        (storeWith ''Pod''
           [(''prod/web-1'', PodObj (mkOwnedPod ''prod'' ''web-1'' ''Running'' ''web'' ''uid-2''))])
     = [PodObj (mkOwnedPod ''prod'' ''web-1'' ''Running'' ''web'' ''uid-2'')]
   \<and> retainedPods (mkReplicaSet ''default'' ''web'' ''uid-1'' 1 nginxSpec)
        (storeWith ''Pod''
           [(''prod/web-1'', PodObj (mkOwnedPod ''prod'' ''web-1'' ''Running'' ''web'' ''uid-2''))])
     = [mkOwnedPod ''prod'' ''web-1'' ''Running'' ''web'' ''uid-2'']
   \<and> ensurePods tickClock (mkReplicaSet ''default'' ''web'' ''uid-1'' 1 nginxSpec)
        (storeWith ''Pod''
           [(''prod/web-1'', PodObj (mkOwnedPod ''prod'' ''web-1'' ''Running'' ''web'' ''uid-2''))], 0)
     = ([], [mkOwnedPod ''prod'' ''web-1'' ''Running'' ''web'' ''uid-2''],
        storeWith ''Pod''
           [(''prod/web-1'', PodObj (mkOwnedPod ''prod'' ''web-1'' ''Running'' ''web'' ''uid-2''))], 0)"
  by (simp add: ensurePods_def retainedPods_def List_def storeWith_def NewMemoryStore_def
      podBelongsToReplicaSet_def spec_ownedByNameAndUID_def mkOwnedPod_def mkReplicaSet_def
      emptyMeta_def int32_def Let_def)

text \<open>
  C1 (amended): of the pods that listing returns, the reconciler counts for a ReplicaSet
  exactly those that carry an owner reference of kind \<open>ReplicaSet\<close> whose name equals the
  ReplicaSet's name. These pods are the list \<open>ensurePods\<close> keeps, and their number is
  the current replica count it compares with \<open>spec.replicas\<close> to create the missing
  pods or to delete the first surplus ones. The UID of the reference is not read, so a
  pod owned by another ReplicaSet of the same name is counted as well; a reference with
  the right name and UID always suffices.
\<close>

theorem C1_counted_by_kind_and_name:
  "(let owned = filter (\<lambda>pod. list_ex (\<lambda>ownerRef. ref_Kind ownerRef = ''ReplicaSet''
                                          \<and> ref_Name ownerRef = Name (rs_meta rs))
                                 (OwnerReferences (pod_meta pod)))
                  (podsOf (List ''Pod'' [] s));
        current = int32 (int (length owned));
        desired = Replicas (rs_spec rs)
    in retainedPods rs s = owned
     \<and> ensurePods clk rs (s, t) =
         (if current < desired
          then (case createPods clk rs (nat (int32 (desired - current))) (s, t) of
                  (errs, s', t') \<Rightarrow> (errs, owned, s', t'))
          else if current > desired
          then (case deletePods (take (nat (int32 (current - desired))) owned) s of
                  (errs, s') \<Rightarrow> (errs, owned, s', t))
          else ([], owned, s, t)))
   \<and> (spec_ownedByNameAndUID pod rs \<longrightarrow> podBelongsToReplicaSet pod rs)"
proof -
  have r: "retainedPods rs s = filter (\<lambda>pod. list_ex (\<lambda>ownerRef. ref_Kind ownerRef = ''ReplicaSet''
                                          \<and> ref_Name ownerRef = Name (rs_meta rs))
                                 (OwnerReferences (pod_meta pod)))
                  (podsOf (List ''Pod'' [] s))"
    by (simp add: retainedPods_def podBelongsToReplicaSet_def ownerRefsMatch_list_ex)
  have "spec_ownedByNameAndUID pod rs \<longrightarrow> podBelongsToReplicaSet pod rs"
    by (auto simp: podBelongsToReplicaSet_def spec_ownedByNameAndUID_def ownerRefsMatch_list_ex
        list_ex_iff)
  moreover have "ensurePods clk rs (s, t) =
         (if int32 (int (length (retainedPods rs s))) < Replicas (rs_spec rs)
          then (case createPods clk rs (nat (int32 (Replicas (rs_spec rs) - int32 (int (length (retainedPods rs s)))))) (s, t) of
                  (errs, s', t') \<Rightarrow> (errs, retainedPods rs s, s', t'))
          else if int32 (int (length (retainedPods rs s))) > Replicas (rs_spec rs)
          then (case deletePods (take (nat (int32 (int32 (int (length (retainedPods rs s))) - Replicas (rs_spec rs)))) (retainedPods rs s)) s of
                  (errs, s') \<Rightarrow> (errs, retainedPods rs s, s', t))
          else ([], retainedPods rs s, s, t))"
    by (simp add: ensurePods_def Let_def split: prod.splits)
  ultimately show ?thesis
    unfolding r [symmetric] by (simp add: Let_def)
qed

theorem C1_counted_witness:
  "spec_ownedByNameAndUID (mkOwnedPod ''default'' ''web-1'' ''Running'' ''web'' ''uid-1'')
       (mkReplicaSet ''default'' ''web'' ''uid-1'' 2 nginxSpec)
   \<and> podBelongsToReplicaSet (mkOwnedPod ''default'' ''web-1'' ''Running'' ''web'' ''uid-1'')
       (mkReplicaSet ''default'' ''web'' ''uid-1'' 2 nginxSpec)
   \<and> ensurePods tickClock (mkReplicaSet ''default'' ''web'' ''uid-1'' 2 nginxSpec)
        (storeWith ''Pod''
           [(''default/web-1'', PodObj (mkOwnedPod ''default'' ''web-1'' ''Running'' ''web'' ''uid-1'')),
            (''default/p1'', PodObj (plainPod ''default'' ''p1'' ''1000'' 1000)),
            (''prod/web-1'', PodObj (mkOwnedPod ''prod'' ''web-1'' ''Running'' ''web'' ''uid-2''))], 0)
     = ([], [mkOwnedPod ''default'' ''web-1'' ''Running'' ''web'' ''uid-1'',
             mkOwnedPod ''prod'' ''web-1'' ''Running'' ''web'' ''uid-2''],
        storeWith ''Pod''
           [(''default/web-1'', PodObj (mkOwnedPod ''default'' ''web-1'' ''Running'' ''web'' ''uid-1'')),
            (''default/p1'', PodObj (plainPod ''default'' ''p1'' ''1000'' 1000)),
            (''prod/web-1'', PodObj (mkOwnedPod ''prod'' ''web-1'' ''Running'' ''web'' ''uid-2''))], 0)
   \<and> ensurePods tickClock (mkReplicaSet ''default'' ''web'' ''uid-1'' 1 nginxSpec)
        (storeWith ''Pod''
           [(''default/web-1'', PodObj (mkOwnedPod ''default'' ''web-1'' ''Running'' ''web'' ''uid-1'')),
            (''default/p1'', PodObj (plainPod ''default'' ''p1'' ''1000'' 1000)),
            (''prod/web-1'', PodObj (mkOwnedPod ''prod'' ''web-1'' ''Running'' ''web'' ''uid-2''))], 0)
     = ([], [mkOwnedPod ''default'' ''web-1'' ''Running'' ''web'' ''uid-1'',
             mkOwnedPod ''prod'' ''web-1'' ''Running'' ''web'' ''uid-2''],
        storeWith ''Pod''
           [(''default/p1'', PodObj (plainPod ''default'' ''p1'' ''1000'' 1000)),
            (''prod/web-1'', PodObj (mkOwnedPod ''prod'' ''web-1'' ''Running'' ''web'' ''uid-2''))], 0)"
proof -
  let ?a = "mkOwnedPod ''default'' ''web-1'' ''Running'' ''web'' ''uid-1''"
  let ?b = "mkOwnedPod ''prod'' ''web-1'' ''Running'' ''web'' ''uid-2''"
  let ?p = "plainPod ''default'' ''p1'' ''1000'' 1000"
  let ?s = "storeWith ''Pod'' [(''default/web-1'', PodObj ?a), (''default/p1'', PodObj ?p),
                               (''prod/web-1'', PodObj ?b)]"
  have l: "podsOf (List ''Pod'' [] ?s) = [?a, ?p, ?b]"
    by (simp add: List_def storeWith_def NewMemoryStore_def)
  have own: "spec_ownedByNameAndUID ?a (mkReplicaSet ''default'' ''web'' ''uid-1'' 2 nginxSpec)"
    by (simp add: spec_ownedByNameAndUID_def mkOwnedPod_def mkReplicaSet_def emptyMeta_def)
  have d: "deletePods [?a] ?s
      = ([], storeWith ''Pod'' [(''default/p1'', PodObj ?p), (''prod/web-1'', PodObj ?b)])"
    by (simp add: rs_deletePod_def Delete_def notifyWatchers_def Let_def storeWith_def
        NewMemoryStore_def objectKey_def mkOwnedPod_def emptyMeta_def GetKind_def
        GetNamespace_def plainPod_def)
  from C1_counted_by_kind_and_name
         [of "mkReplicaSet ''default'' ''web'' ''uid-1'' 2 nginxSpec" ?s tickClock 0 ?a] own
  have two: "podBelongsToReplicaSet ?a (mkReplicaSet ''default'' ''web'' ''uid-1'' 2 nginxSpec)
     \<and> ensurePods tickClock (mkReplicaSet ''default'' ''web'' ''uid-1'' 2 nginxSpec) (?s, 0)
         = ([], [?a, ?b], ?s, 0)"
    unfolding l
    by (simp add: Let_def int32_def mkOwnedPod_def mkReplicaSet_def emptyMeta_def plainPod_def)
  from C1_counted_by_kind_and_name
         [of "mkReplicaSet ''default'' ''web'' ''uid-1'' 1 nginxSpec" ?s tickClock 0 ?a]
  have one: "ensurePods tickClock (mkReplicaSet ''default'' ''web'' ''uid-1'' 1 nginxSpec) (?s, 0)
         = (case deletePods [?a] ?s of (errs, s') \<Rightarrow> (errs, [?a, ?b], s', 0))"
    unfolding l
    by (simp add: Let_def int32_def mkOwnedPod_def mkReplicaSet_def emptyMeta_def plainPod_def)
  from own two one d show ?thesis by simp
qed

section \<open>The Deployment controller\<close>

lemma Create_objects_other:
  assumes "Create now1 now2 obj s = Inr (obj', s')" and "kind \<noteq> GetKind obj"
  shows "objects s' kind = objects s kind"
  using assms by (auto simp: Create_def Let_def split: if_splits)

lemma Delete_objects_other:
  assumes "Delete k ns name s = Inr s'" and "kind \<noteq> k"
  shows "objects s' kind = objects s kind"
  using assms by (auto simp: Delete_def Let_def split: option.splits)

lemma rs_createPod_other:
  assumes "rs_createPod clk rs (s, t) = (res, s', t')" and "kind \<noteq> ''Pod''"
  shows "objects s' kind = objects s kind"
proof (cases "Create (clk (t + 1)) (clk (t + 2)) (PodObj (podFromTemplate rs (clk t))) s")
  case (Inl err)
  with assms show ?thesis by (simp add: rs_createPod_def)
next
  case (Inr r)
  obtain obj' s1 where r: "r = (obj', s1)" by (cases r)
  with Inr assms(1) have "s' = s1" by (simp add: rs_createPod_def)
  moreover have "GetKind (PodObj (podFromTemplate rs (clk t))) = ''Pod''"
    by (simp add: GetKind_def podFromTemplate_def)
  ultimately show ?thesis
    using Create_objects_other [of _ _ _ s obj' s1 kind] Inr r assms(2) by simp
qed

lemma createPods_other:
  assumes "createPods clk rs n (s, t) = (errs, s', t')" and "kind \<noteq> ''Pod''"
  shows "objects s' kind = objects s kind"
  using assms(1)
proof (induction n arbitrary: s t errs s' t')
  case 0
  then show ?case by simp
next
  case (Suc n)
  obtain res s1 t1 where r: "rs_createPod clk rs (s, t) = (res, s1, t1)"
    by (cases "rs_createPod clk rs (s, t)")
  obtain errs2 s2 t2 where rest: "createPods clk rs n (s1, t1) = (errs2, s2, t2)"
    by (cases "createPods clk rs n (s1, t1)")
  from Suc.prems r rest have "s2 = s'" by simp
  with Suc.IH [OF rest] rs_createPod_other [OF r assms(2)] show ?case by simp
qed

lemma deletePods_other:
  assumes "deletePods ps s = (errs, s')" and "kind \<noteq> ''Pod''"
  shows "objects s' kind = objects s kind"
  using assms(1)
proof (induction ps arbitrary: s errs s')
  case Nil
  then show ?case by simp
next
  case (Cons p ps)
  obtain res s1 where r: "rs_deletePod p s = (res, s1)" by (cases "rs_deletePod p s")
  obtain errs2 s2 where rest: "deletePods ps s1 = (errs2, s2)" by (cases "deletePods ps s1")
  from Cons.prems r rest have eq: "s2 = s'" by simp
  have "objects s1 kind = objects s kind"
    using r Delete_objects_other [of "''Pod''" _ _ s s1 kind] assms(2)
    by (auto simp: rs_deletePod_def split: sum.splits)
  with Cons.IH [OF rest] eq show ?case by simp
qed

lemma Get_cong_objects: "objects s' kind = objects s kind \<Longrightarrow> Get kind ns n s' = Get kind ns n s"
  by (simp add: Get_def)

lemma retainedPods_replicas [simp]:
  "retainedPods (rs\<lparr>rs_spec := (rs_spec rs)\<lparr>Replicas := n\<rparr>\<rparr>) s = retainedPods rs s"
  by (simp add: retainedPods_def podBelongsToReplicaSet_def ownerRefsMatch_iff)

lemma rs_createPod_replicas [simp]:
  "rs_createPod clk (rs\<lparr>rs_spec := (rs_spec rs)\<lparr>Replicas := n\<rparr>\<rparr>) st = rs_createPod clk rs st"
  by (simp add: rs_createPod_def podFromTemplate_def)

lemma createPods_replicas [simp]:
  "createPods clk (rs\<lparr>rs_spec := (rs_spec rs)\<lparr>Replicas := n\<rparr>\<rparr>) k st = createPods clk rs k st"
  by (induction k arbitrary: st) simp_all

lemma keys_update_present:
  "map_of al k \<noteq> None \<Longrightarrow> map fst (AList.update k v al) = map fst al"
  by (induction al) auto

text \<open>
  With a tracked ReplicaSet whose first image equals the deployment's, a sync of the
  deployment creates no ReplicaSet. It scales the pods as \<open>ensurePods\<close> of the ReplicaSet
  controller would for the tracked ReplicaSet with the deployment's \<open>spec.replicas\<close>,
  which leaves the ReplicaSets of the store alone, and then writes the tracked
  ReplicaSet once, with its spec as tracked and \<open>status.replicas\<close> set to the number of
  pods retained at the start.
\<close>

lemma syncDeployment_matching:
  assumes tracked: "map_of ctrl (objectKey (Namespace (dep_meta d)) (Name (dep_meta d))) = Some state"
    and rs: "ds_ReplicaSet state = Some rs"
    and img: "primaryImage (Template (rs_spec rs)) = Inr img"
      "primaryImage (Template (dep_spec d)) = Inr img"
    and kind: "Kind (rs_type rs) = ''ReplicaSet''"
    and stored: "Get ''ReplicaSet'' (Namespace (rs_meta rs)) (Name (rs_meta rs)) s = Inr old"
  shows "\<exists>errs s2 t2 s' ctrl' state'.
           ensurePods clk (rs\<lparr>rs_spec := (rs_spec rs)\<lparr>Replicas := Replicas (dep_spec d)\<rparr>\<rparr>) (s, t)
             = (errs, retainedPods rs s, s2, t2)
         \<and> objects s2 ''ReplicaSet'' = objects s ''ReplicaSet''
         \<and> Update (clk t2)
              (ReplicaSetObj (rs\<lparr>rs_status := (rs_status rs)
                 \<lparr>st_Replicas := int32 (int (length (retainedPods rs s)))\<rparr>\<rparr>)) s2
             = Inr (ReplicaSetObj (rs\<lparr>rs_status := (rs_status rs)
                       \<lparr>st_Replicas := int32 (int (length (retainedPods rs s)))\<rparr>,
                     rs_meta := (rs_meta rs)\<lparr>ResourceVersion := FormatInt (clk t2)\<rparr>\<rparr>), s')
         \<and> syncDeployment clk d (ctrl, s, t) = (errs, None, ctrl', s', t2 + 1)
         \<and> Get ''ReplicaSet'' (Namespace (rs_meta rs)) (Name (rs_meta rs)) s'
             = Inr (ReplicaSetObj (rs\<lparr>rs_status := (rs_status rs)
                       \<lparr>st_Replicas := int32 (int (length (retainedPods rs s)))\<rparr>,
                     rs_meta := (rs_meta rs)\<lparr>ResourceVersion := FormatInt (clk t2)\<rparr>\<rparr>))
         \<and> map fst (entriesOf ''ReplicaSet'' s') = map fst (entriesOf ''ReplicaSet'' s)
         \<and> (\<forall>ns' name'. objectKey ns' name' \<noteq> objectKey (Namespace (rs_meta rs)) (Name (rs_meta rs))
               \<longrightarrow> Get ''ReplicaSet'' ns' name' s' = Get ''ReplicaSet'' ns' name' s)
         \<and> objects s' ''Pod'' = objects s2 ''Pod''
         \<and> map_of ctrl' (objectKey (Namespace (dep_meta d)) (Name (dep_meta d))) = Some state'
         \<and> ds_ReplicaSet state'
             = Some (rs\<lparr>rs_status := (rs_status rs)
                       \<lparr>st_Replicas := int32 (int (length (retainedPods rs s)))\<rparr>,
                     rs_meta := (rs_meta rs)\<lparr>ResourceVersion := FormatInt (clk t2)\<rparr>\<rparr>)"
proof -
  let ?key = "objectKey (Namespace (dep_meta d)) (Name (dep_meta d))"
  define state1 where "state1 =
    (if ResourceVersion (dep_meta (ds_Deployment state)) \<noteq> ResourceVersion (dep_meta d)
     then state\<lparr>ds_Deployment := d\<rparr> else state)"
  have rs1: "ds_ReplicaSet state1 = Some rs" using rs by (simp add: state1_def)
  have m: "templateMatches state1 d = Inr True"
    using rs1 img by (simp add: templateMatches_def)
  have ens: "ensureReplicaSet clk d state1 (s, t) = (None, state1, s, t)"
    by (simp add: ensureReplicaSet_def m)
  let ?cur = "retainedPods rs s"
  let ?des = "Replicas (dep_spec d)"
  let ?c = "int32 (int (length ?cur))"
  let ?up = "if ?c < ?des then createPods clk rs (nat (int32 (?des - ?c))) (s, t) else ([], s, t)"
  obtain errs1 s1 t1 where up: "?up = (errs1, s1, t1)" by (cases ?up)
  let ?down = "if ?c > ?des then deletePods (take (nat (int32 (?c - ?des))) ?cur) s1 else ([], s1)"
  obtain errs2 s2 where down: "?down = (errs2, s2)" by (cases ?down)
  let ?rs' = "rs\<lparr>rs_status := (rs_status rs)\<lparr>st_Replicas := ?c\<rparr>\<rparr>"
  let ?stored = "rs\<lparr>rs_status := (rs_status rs)\<lparr>st_Replicas := ?c\<rparr>,
                    rs_meta := (rs_meta rs)\<lparr>ResourceVersion := FormatInt (clk t1)\<rparr>\<rparr>"
  have pods: "ensurePods clk (rs\<lparr>rs_spec := (rs_spec rs)\<lparr>Replicas := ?des\<rparr>\<rparr>) (s, t)
                = (errs1 @ errs2, ?cur, s2, t1)"
    using up down by (auto simp: ensurePods_def Let_def split: if_splits)
  have o1: "objects s1 ''ReplicaSet'' = objects s ''ReplicaSet''"
    using up createPods_other [of clk rs _ s t errs1 s1 t1 "''ReplicaSet''"]
    by (auto split: if_splits)
  have o2: "objects s2 ''ReplicaSet'' = objects s1 ''ReplicaSet''"
    using down deletePods_other [of _ s1 errs2 s2 "''ReplicaSet''"]
    by (auto split: if_splits)
  have o: "objects s2 ''ReplicaSet'' = objects s ''ReplicaSet''"
    using o1 o2 by simp
  have k: "GetKind (ReplicaSetObj ?rs') = ''ReplicaSet''"
    "GetNamespace (ReplicaSetObj ?rs') = Namespace (rs_meta rs)"
    "GetName (ReplicaSetObj ?rs') = Name (rs_meta rs)"
    using kind by (simp_all add: GetKind_def GetNamespace_def GetName_def)
  have g2: "Get ''ReplicaSet'' (Namespace (rs_meta rs)) (Name (rs_meta rs)) s2 = Inr old"
    using stored Get_cong_objects [OF o] by simp
  then have "Get (GetKind (ReplicaSetObj ?rs')) (GetNamespace (ReplicaSetObj ?rs'))
               (GetName (ReplicaSetObj ?rs')) s2 = Inr old"
    by (simp only: k)
  from Update_succeeds [OF this, of "clk t1"]
  obtain s3 where u: "Update (clk t1) (ReplicaSetObj ?rs') s2
      = Inr (SetResourceVersion (FormatInt (clk t1)) (ReplicaSetObj ?rs'), s3)"
    by blast
  have st: "SetResourceVersion (FormatInt (clk t1)) (ReplicaSetObj ?rs') = ReplicaSetObj ?stored"
    by simp
  have u': "Update (clk t1) (ReplicaSetObj ?rs') s2 = Inr (ReplicaSetObj ?stored, s3)"
    using u by (simp only: st)
  have dep: "dep_ensurePods clk d state1 (s, t)
               = (errs1 @ errs2, None, state1\<lparr>ds_ReplicaSet := Some ?stored\<rparr>, s3, t1 + 1)"
    unfolding dep_ensurePods_def
    by (simp add: rs1 Let_def up down u')
  have sync: "syncDeployment clk d (ctrl, s, t)
      = (errs1 @ errs2, None,
         AList.update ?key (state1\<lparr>ds_ReplicaSet := Some ?stored\<rparr>) ctrl, s3, t1 + 1)"
  proof -
    have "syncDeployment clk d (ctrl, s, t)
        = (case ensureReplicaSet clk d state1 (s, t) of
             (Some err, state2, s2, t2) \<Rightarrow>
               ([], Some err, AList.update ?key state2 ctrl, s2, t2)
           | (None, state2, s2, t2) \<Rightarrow>
               (case dep_ensurePods clk d state2 (s2, t2) of
                  (errs, res, state3, s3, t3) \<Rightarrow>
                    (errs, res, AList.update ?key state3 ctrl, s3, t3)))"
      unfolding syncDeployment_def state1_def by (simp add: Let_def tracked)
    then show ?thesis by (simp add: ens dep)
  qed
  have g: "Get ''ReplicaSet'' (Namespace (rs_meta rs)) (Name (rs_meta rs)) s3
             = Inr (ReplicaSetObj ?stored)"
    using Update_Get(1) [OF u'] by (simp only: k)
  obtain m where m2: "objects s2 ''ReplicaSet'' = Some m"
    and present: "map_of m (objectKey (Namespace (rs_meta rs)) (Name (rs_meta rs))) \<noteq> None"
    using g2 by (auto simp: Get_def split: option.splits)
  have m3: "objects s3 ''ReplicaSet''
      = Some (AList.update (objectKey (Namespace (rs_meta rs)) (Name (rs_meta rs)))
                (ReplicaSetObj ?stored) m)"
    using u' m2 present kind
    by (auto simp: Update_def Let_def GetKind_def GetNamespace_def GetName_def notifyWatchers_def
        split: option.splits if_splits)
  have keys: "map fst (entriesOf ''ReplicaSet'' s3) = map fst (entriesOf ''ReplicaSet'' s)"
    using m3 m2 o keys_update_present [OF present] by (simp add: entriesOf_def)
  have others: "\<forall>ns' name'. objectKey ns' name' \<noteq> objectKey (Namespace (rs_meta rs)) (Name (rs_meta rs))
               \<longrightarrow> Get ''ReplicaSet'' ns' name' s3 = Get ''ReplicaSet'' ns' name' s"
    using m3 m2 o by (simp add: Get_def update_conv')
  have podsame: "objects s3 ''Pod'' = objects s2 ''Pod''"
    using Update_objects_other [OF u', of "''Pod''"] by (simp add: k)
  have c': "map_of (AList.update ?key (state1\<lparr>ds_ReplicaSet := Some ?stored\<rparr>) ctrl) ?key
              = Some (state1\<lparr>ds_ReplicaSet := Some ?stored\<rparr>)"
    by (simp add: update_conv')
  have f: "ds_ReplicaSet (state1\<lparr>ds_ReplicaSet := Some ?stored\<rparr>) = Some ?stored"
    by simp
  show ?thesis
    apply (rule exI [of _ "errs1 @ errs2"])
    apply (rule exI [of _ s2])
    apply (rule exI [of _ t1])
    apply (rule exI [of _ s3])
    apply (rule exI [of _ "AList.update ?key (state1\<lparr>ds_ReplicaSet := Some ?stored\<rparr>) ctrl"])
    apply (rule exI [of _ "state1\<lparr>ds_ReplicaSet := Some ?stored\<rparr>"])
    using pods o u' sync g keys others podsame c' f
    apply (intro conjI)
    apply assumption+
    done
qed

lemma deploymentCluster_facts:
  "map_of trackingController
      (objectKey (Namespace (dep_meta scaledDeployment)) (Name (dep_meta scaledDeployment)))
     = Some \<lparr>ds_Deployment = mkDeployment ''default'' ''web'' ''uid-d'' 2 nginxSpec,
              ds_ReplicaSet = Some ownedReplicaSet\<rparr>"
  "primaryImage (Template (rs_spec ownedReplicaSet)) = Inr ''nginx:1.25''"
  "primaryImage (Template (dep_spec scaledDeployment)) = Inr ''nginx:1.25''"
  "Kind (rs_type ownedReplicaSet) = ''ReplicaSet''"
  "Namespace (rs_meta ownedReplicaSet) = ''default''"
  "Name (rs_meta ownedReplicaSet) = ''web-1000''"
  "Replicas (rs_spec ownedReplicaSet) = 2"
  "Replicas (dep_spec scaledDeployment) = 3"
  "Get ''ReplicaSet'' ''default'' ''web-1000'' deploymentCluster = Inr (ReplicaSetObj ownedReplicaSet)"
  by (simp_all add: trackingController_def scaledDeployment_def mkDeployment_def emptyMeta_def
      objectKey_def ownedReplicaSet_def replicaSetFor_def primaryImage_def nginxSpec_def Let_def
      FormatInt_def digits.simps digit_char_def Get_def deploymentCluster_def storeWith2_def)

lemma deploymentCluster_pods:
  "retainedPods rs deploymentCluster = []"
  "List ''Pod'' [] deploymentCluster = []"
  by (simp_all add: retainedPods_def List_def deploymentCluster_def storeWith2_def
      NewMemoryStore_def)

lemma deploymentCluster_first_pod:
  "\<exists>s'. rs_createPod tickClock ownedReplicaSet (deploymentCluster, t) = (None, s', t + 3)"
  by (simp add: rs_createPod_def Create_def Let_def deploymentCluster_def storeWith2_def
      NewMemoryStore_def GetKind_def podFromTemplate_def)

text \<open>
  C8, as stated, fails. The deployment \<open>web\<close> wants three replicas; the ReplicaSet
  \<open>web-1000\<close> the controller tracks for it has the same image and \<open>spec.replicas = 2\<close>.
  The sync returns without error and the stored ReplicaSet still has
  \<open>spec.replicas = 2\<close>.
\<close>

theorem C8_replicas_not_propagated_counterexample:
  "Replicas (dep_spec scaledDeployment) = 3
   \<and> storedReplicas ''default'' ''web-1000'' deploymentCluster = Some 2
   \<and> fst (snd (syncDeployment tickClock scaledDeployment
                   (trackingController, deploymentCluster, 0))) = None
   \<and> storedReplicas ''default'' ''web-1000''
        (fst (snd (snd (snd (syncDeployment tickClock scaledDeployment
                               (trackingController, deploymentCluster, 0)))))) = Some 2"
proof -
  note f = deploymentCluster_facts
  have stored: "Get ''ReplicaSet'' (Namespace (rs_meta ownedReplicaSet))
      (Name (rs_meta ownedReplicaSet)) deploymentCluster = Inr (ReplicaSetObj ownedReplicaSet)"
    by (simp only: f)
  from syncDeployment_matching [OF f(1) _ f(2) f(3) f(4) stored, of tickClock 0]
  obtain errs ctrl' s' t2 where
    run: "syncDeployment tickClock scaledDeployment (trackingController, deploymentCluster, 0)
            = (errs, None, ctrl', s', t2 + 1)"
    and g: "Get ''ReplicaSet'' (Namespace (rs_meta ownedReplicaSet))
              (Name (rs_meta ownedReplicaSet)) s'
          = Inr (ReplicaSetObj (ownedReplicaSet\<lparr>rs_status := (rs_status ownedReplicaSet)
                   \<lparr>st_Replicas := int32 (int (length (retainedPods ownedReplicaSet deploymentCluster)))\<rparr>,
                 rs_meta := (rs_meta ownedReplicaSet)\<lparr>ResourceVersion := FormatInt (tickClock t2)\<rparr>\<rparr>))"
    by auto
  from g have "storedReplicas ''default'' ''web-1000'' s' = Some 2"
    by (simp add: storedReplicas_def f)
  moreover have "storedReplicas ''default'' ''web-1000'' deploymentCluster = Some 2"
    by (simp add: storedReplicas_def f)
  ultimately show ?thesis by (simp add: run f)
qed

text \<open>
  C8 (amended): for a deployment whose controller state tracks a ReplicaSet that is in
  the store and whose first container image equals the deployment's, a sync of the
  deployment returns without error and does the following. It scales the pods itself,
  exactly as \<open>ensurePods\<close> of the ReplicaSet controller would for the tracked ReplicaSet
  with the deployment's \<open>spec.replicas\<close>, and this leaves the ReplicaSets of the store
  as they were. It then makes one store write for the ReplicaSet, an \<open>Update\<close> of the
  tracked ReplicaSet with its spec unchanged (\<open>spec.replicas\<close> stays what it was and is
  not set to the deployment's), \<open>status.replicas\<close> set to the number of pods retained
  for it at the start of the sync, and the resource-version of the write. No ReplicaSet
  is created: the store holds the same ReplicaSet keys as before, every other ReplicaSet
  is stored as before, and the write leaves the pods as the scaling left them. The
  controller goes on tracking the object written.
\<close>

theorem C8_matching_template_keeps_replicaset_spec:
  assumes "map_of ctrl (objectKey (Namespace (dep_meta d)) (Name (dep_meta d))) = Some state"
    and "ds_ReplicaSet state = Some rs"
    and "primaryImage (Template (rs_spec rs)) = Inr img"
    and "primaryImage (Template (dep_spec d)) = Inr img"
    and "Kind (rs_type rs) = ''ReplicaSet''"
    and "Get ''ReplicaSet'' (Namespace (rs_meta rs)) (Name (rs_meta rs)) s = Inr old"
  shows "\<exists>errs s2 t2 s' ctrl' state'.
           ensurePods clk (rs\<lparr>rs_spec := (rs_spec rs)\<lparr>Replicas := Replicas (dep_spec d)\<rparr>\<rparr>) (s, t)
             = (errs, retainedPods rs s, s2, t2)
         \<and> objects s2 ''ReplicaSet'' = objects s ''ReplicaSet''
         \<and> Update (clk t2)
              (ReplicaSetObj (rs\<lparr>rs_status := (rs_status rs)
                 \<lparr>st_Replicas := int32 (int (length (retainedPods rs s)))\<rparr>\<rparr>)) s2
             = Inr (ReplicaSetObj (rs\<lparr>rs_status := (rs_status rs)
                       \<lparr>st_Replicas := int32 (int (length (retainedPods rs s)))\<rparr>,
                     rs_meta := (rs_meta rs)\<lparr>ResourceVersion := FormatInt (clk t2)\<rparr>\<rparr>), s')
         \<and> syncDeployment clk d (ctrl, s, t) = (errs, None, ctrl', s', t2 + 1)
         \<and> Get ''ReplicaSet'' (Namespace (rs_meta rs)) (Name (rs_meta rs)) s'
             = Inr (ReplicaSetObj (rs\<lparr>rs_status := (rs_status rs)
                       \<lparr>st_Replicas := int32 (int (length (retainedPods rs s)))\<rparr>,
                     rs_meta := (rs_meta rs)\<lparr>ResourceVersion := FormatInt (clk t2)\<rparr>\<rparr>))
         \<and> map fst (entriesOf ''ReplicaSet'' s') = map fst (entriesOf ''ReplicaSet'' s)
         \<and> (\<forall>ns' name'. objectKey ns' name' \<noteq> objectKey (Namespace (rs_meta rs)) (Name (rs_meta rs))
               \<longrightarrow> Get ''ReplicaSet'' ns' name' s' = Get ''ReplicaSet'' ns' name' s)
         \<and> objects s' ''Pod'' = objects s2 ''Pod''
         \<and> map_of ctrl' (objectKey (Namespace (dep_meta d)) (Name (dep_meta d))) = Some state'
         \<and> ds_ReplicaSet state'
             = Some (rs\<lparr>rs_status := (rs_status rs)
                       \<lparr>st_Replicas := int32 (int (length (retainedPods rs s)))\<rparr>,
                     rs_meta := (rs_meta rs)\<lparr>ResourceVersion := FormatInt (clk t2)\<rparr>\<rparr>)"
  using assms by (rule syncDeployment_matching)

theorem C8_matching_template_witness:
  "fst (snd (syncDeployment tickClock (mkDeployment ''default'' ''web'' ''uid-d'' 1 nginxSpec)
               (trackingController, deploymentCluster, 0))) = None
   \<and> Replicas (dep_spec (mkDeployment ''default'' ''web'' ''uid-d'' 1 nginxSpec)) = 1
   \<and> storedReplicas ''default'' ''web-1000'' deploymentCluster = Some 2
   \<and> storedReplicas ''default'' ''web-1000''
        (fst (snd (snd (snd (syncDeployment tickClock
           (mkDeployment ''default'' ''web'' ''uid-d'' 1 nginxSpec)
           (trackingController, deploymentCluster, 0)))))) = Some 2
   \<and> map fst (entriesOf ''ReplicaSet''
        (fst (snd (snd (snd (syncDeployment tickClock
           (mkDeployment ''default'' ''web'' ''uid-d'' 1 nginxSpec)
           (trackingController, deploymentCluster, 0)))))))
       = [''default/web-1000'']
   \<and> List ''Pod'' [] deploymentCluster = []
   \<and> map (Name \<circ> pod_meta) (podsOf (List ''Pod'' []
        (fst (snd (snd (snd (syncDeployment tickClock
           (mkDeployment ''default'' ''web'' ''uid-d'' 1 nginxSpec)
           (trackingController, deploymentCluster, 0))))))))
       = [''web-1000-1000'']
   \<and> snd (snd (snd (snd (syncDeployment tickClock
           (mkDeployment ''default'' ''web'' ''uid-d'' 1 nginxSpec)
           (trackingController, deploymentCluster, 0))))) = 4"
proof -
  note f = deploymentCluster_facts
  let ?d = "mkDeployment ''default'' ''web'' ''uid-d'' 1 nginxSpec"
  let ?rs = "ownedReplicaSet\<lparr>rs_spec := (rs_spec ownedReplicaSet)\<lparr>Replicas := Replicas (dep_spec ?d)\<rparr>\<rparr>"
  have d: "objectKey (Namespace (dep_meta ?d)) (Name (dep_meta ?d))
      = objectKey (Namespace (dep_meta scaledDeployment)) (Name (dep_meta scaledDeployment))"
    "primaryImage (Template (dep_spec ?d)) = Inr ''nginx:1.25''"
    "Replicas (dep_spec ?d) = 1"
    by (simp_all add: mkDeployment_def scaledDeployment_def primaryImage_def nginxSpec_def)
  have tracked: "map_of trackingController (objectKey (Namespace (dep_meta ?d)) (Name (dep_meta ?d)))
     = Some \<lparr>ds_Deployment = mkDeployment ''default'' ''web'' ''uid-d'' 2 nginxSpec,
              ds_ReplicaSet = Some ownedReplicaSet\<rparr>"
    by (simp only: d f)
  have stored: "Get ''ReplicaSet'' (Namespace (rs_meta ownedReplicaSet))
      (Name (rs_meta ownedReplicaSet)) deploymentCluster = Inr (ReplicaSetObj ownedReplicaSet)"
    by (simp only: f)
  obtain s1 where c: "rs_createPod tickClock ownedReplicaSet (deploymentCluster, 0) = (None, s1, 3)"
    using deploymentCluster_first_pod [of 0] by auto
  have l1: "List ''Pod'' [] s1 = [PodObj (createdPod ownedReplicaSet (tickClock 0)
                (tickClock (0 + 1)) (tickClock (0 + 2)))]"
    using rs_createPod_ok(1) [OF c] by (simp add: deploymentCluster_pods)
  have e: "ensurePods tickClock ?rs (deploymentCluster, 0) = ([], [], s1, 3)"
    by (simp add: ensurePods_def Let_def deploymentCluster_pods d int32_def c)
  from C8_matching_template_keeps_replicaset_spec [OF tracked _ f(2) d(2) f(4) stored, of tickClock 0]
  obtain errs s2 t2 s' ctrl' where
    ens: "ensurePods tickClock ?rs (deploymentCluster, 0)
            = (errs, retainedPods ownedReplicaSet deploymentCluster, s2, t2)"
    and run: "syncDeployment tickClock ?d (trackingController, deploymentCluster, 0)
            = (errs, None, ctrl', s', t2 + 1)"
    and g: "Get ''ReplicaSet'' (Namespace (rs_meta ownedReplicaSet))
              (Name (rs_meta ownedReplicaSet)) s'
          = Inr (ReplicaSetObj (ownedReplicaSet\<lparr>rs_status := (rs_status ownedReplicaSet)
                   \<lparr>st_Replicas := int32 (int (length (retainedPods ownedReplicaSet deploymentCluster)))\<rparr>,
                 rs_meta := (rs_meta ownedReplicaSet)\<lparr>ResourceVersion := FormatInt (tickClock t2)\<rparr>\<rparr>))"
    and keys: "map fst (entriesOf ''ReplicaSet'' s') = map fst (entriesOf ''ReplicaSet'' deploymentCluster)"
    and pods: "objects s' ''Pod'' = objects s2 ''Pod''"
    by auto
  from ens e have s2: "s2 = s1" and t2: "t2 = 3" by simp_all
  have r: "storedReplicas ''default'' ''web-1000'' s' = Some 2"
    using g by (simp add: storedReplicas_def f)
  have r0: "storedReplicas ''default'' ''web-1000'' deploymentCluster = Some 2"
    by (simp add: storedReplicas_def f)
  have k: "map fst (entriesOf ''ReplicaSet'' s') = [''default/web-1000'']"
    unfolding keys by (simp add: entriesOf_def deploymentCluster_def storeWith2_def)
  have "List ''Pod'' [] s' = List ''Pod'' [] s1"
    using pods s2 by (simp add: List_def)
  then have n: "map (Name \<circ> pod_meta) (podsOf (List ''Pod'' [] s')) = [''web-1000-1000'']"
    by (simp add: l1 createdPod_fields f tickClock_def FormatInt_def digits.simps digit_char_def)
  from r r0 k n t2 show ?thesis
    by (simp add: run d deploymentCluster_pods)
qed

section \<open>The store with its pointers\<close>

lemma load_put_same [simp]:
  "load (put obj (SetResourceVersion v (load h obj)) h) obj = SetResourceVersion v (load h obj)"
  "load (put obj (SetCreationTimestamp ts (load h obj)) h) obj = SetCreationTimestamp ts (load h obj)"
  by (cases obj; simp)+

lemma load_put_other:
  "obj' \<noteq> obj \<Longrightarrow> load (put obj (SetResourceVersion v (load h obj)) h) obj' = load h obj'"
  "obj' \<noteq> obj \<Longrightarrow> load (put obj (SetCreationTimestamp ts (load h obj)) h) obj' = load h obj'"
  by (cases obj; cases obj'; simp)+


lemma modifyPod_fields [simp]:
  "h_objects (modifyPod f r s) = h_objects s"
  "h_watchers (modifyPod f r s) = h_watchers s"
  "h_WatchBufferSize (modifyPod f r s) = h_WatchBufferSize s"
  "podAt (heap (modifyPod f r s)) r = f (podAt (heap s) r)"
  "r' \<noteq> r \<Longrightarrow> podAt (heap (modifyPod f r s)) r' = podAt (heap s) r'"
  "nodeAt (heap (modifyPod f r s)) = nodeAt (heap s)"
  "replicaSetAt (heap (modifyPod f r s)) = replicaSetAt (heap s)"
  "deploymentAt (heap (modifyPod f r s)) = deploymentAt (heap s)"
  by (simp_all add: modifyPod_def)

lemma load_modifyPod_other:
  "obj \<noteq> PodRef r \<Longrightarrow> load (heap (modifyPod f r s)) obj = load (heap s) obj"
  by (cases obj) (simp_all add: modifyPod_def)

lemma notifyWatchers_ptr_fields [simp]:
  "heap (notifyWatchers_ptr ty obj s) = heap s"
  "h_objects (notifyWatchers_ptr ty obj s) = h_objects s"
  "h_WatchBufferSize (notifyWatchers_ptr ty obj s) = h_WatchBufferSize s"
  by (simp_all add: notifyWatchers_ptr_def Let_def split: option.splits)

lemma notifyWatchers_ptr_watchersOf:
  assumes "GetKind (load (heap s) obj) = kind" and "GetNamespace (load (heap s) obj) = ns"
  shows "watchersOf kind ns (notifyWatchers_ptr ty obj s)
           = map (trySend_ptr (event ty obj)) (watchersOf kind ns s)"
    and "key \<noteq> kind @ ''/'' @ ns \<Longrightarrow> h_watchers (notifyWatchers_ptr ty obj s) key = h_watchers s key"
  using assms
  by (simp_all add: notifyWatchers_ptr_def watchersOf_def Let_def event_def split: option.splits)


lemma Get_ptr_objects: "h_objects s' = h_objects s \<Longrightarrow> Get_ptr kind ns name s' = Get_ptr kind ns name s"
  by (simp add: Get_ptr_def)


section \<open>Binding a pod\<close>


lemma schedulePod_ptr_unbound:
  assumes "\<forall>node. findBestNode pf (trackedPods (heap s) sched) (podAt (heap s) r)
             (map (load (heap s)) nodes) \<noteq> Inr (Some node)"
  shows "\<exists>err. schedulePod_ptr clk pf r nodes (sched, s, t) = ([], Some err, sched, s, t)"
  using assms by (auto simp: schedulePod_ptr_def split: sum.splits option.splits)





section \<open>Watch\<close>

lemma trySend_ptr_cap [simp]: "rw_cap (trySend_ptr ev w) = rw_cap w"
  by (simp add: trySend_ptr_def)

lemma trySend_ptr_room:
  "length (rw_events w) < rw_cap w \<Longrightarrow> rw_events (trySend_ptr ev w) = rw_events w @ [ev]"
  by (simp add: trySend_ptr_def)

lemma snapshot_fold:
  "rw_events (foldl (\<lambda>w (objKey, obj). if keyInNamespace objKey ns
                     then trySend_ptr \<lparr>re_Type = Added, re_Object = obj\<rparr> w else w) w m)
     = rw_events w @ take (rw_cap w - length (rw_events w))
         (map (event Added \<circ> snd) (filter (\<lambda>(objKey, obj). keyInNamespace objKey ns) m))
   \<and> rw_cap (foldl (\<lambda>w (objKey, obj). if keyInNamespace objKey ns
                     then trySend_ptr \<lparr>re_Type = Added, re_Object = obj\<rparr> w else w) w m)
     = rw_cap w"
proof (induction m arbitrary: w)
  case Nil
  then show ?case by simp
next
  case (Cons x m)
  obtain k obj where x: "x = (k, obj)" by (cases x)
  show ?case
  proof (cases "keyInNamespace k ns")
    case False
    with x Cons.IH [of w] show ?thesis by simp
  next
    case True
    show ?thesis
    proof (cases "length (rw_events w) < rw_cap w")
      case room: True
      let ?w = "trySend_ptr \<lparr>re_Type = Added, re_Object = obj\<rparr> w"
      have e: "rw_events ?w = rw_events w @ [event Added obj]"
        using room by (simp add: trySend_ptr_def event_def)
      have "rw_cap w - length (rw_events w) = Suc (rw_cap w - length (rw_events ?w))"
        using room e by simp
      with x True e Cons.IH [of ?w] show ?thesis by simp
    next
      case full: False
      then have "trySend_ptr \<lparr>re_Type = Added, re_Object = obj\<rparr> w = w"
        by (simp add: trySend_ptr_def)
      with x True full Cons.IH [of w] show ?thesis by simp
    qed
  qed
qed

lemma Watch_ptr_snapshot:
  "watchersOf kind ns (Watch_ptr kind ns s)
     = watchersOf kind ns s
       @ [\<lparr>rw_events = take (h_WatchBufferSize s) (snapshotEvents kind ns s),
           rw_cap = h_WatchBufferSize s, rw_kind = kind, rw_ns = ns\<rparr>]"
proof -
  let ?init = "\<lparr>rw_events = [], rw_cap = h_WatchBufferSize s, rw_kind = kind, rw_ns = ns\<rparr>"
  let ?res = "foldl (\<lambda>w (objKey, obj). if keyInNamespace objKey ns
                     then trySend_ptr \<lparr>re_Type = Added, re_Object = obj\<rparr> w else w) ?init (refsOf kind s)"
  have ev: "rw_events ?res = take (h_WatchBufferSize s) (snapshotEvents kind ns s)"
    and cap: "rw_cap ?res = h_WatchBufferSize s"
    using snapshot_fold [of ns ?init "refsOf kind s"] by (simp_all add: snapshotEvents_def)
  have other: "rw_kind (foldl (\<lambda>w (objKey, obj). if keyInNamespace objKey ns
                     then trySend_ptr \<lparr>re_Type = Added, re_Object = obj\<rparr> w else w) w m) = rw_kind w
        \<and> rw_ns (foldl (\<lambda>w (objKey, obj). if keyInNamespace objKey ns
                     then trySend_ptr \<lparr>re_Type = Added, re_Object = obj\<rparr> w else w) w m) = rw_ns w"
    for w m
    by (induction m arbitrary: w) (auto simp: trySend_ptr_def)
  have "?res = \<lparr>rw_events = take (h_WatchBufferSize s) (snapshotEvents kind ns s),
           rw_cap = h_WatchBufferSize s, rw_kind = kind, rw_ns = ns\<rparr>"
    using ev cap other [of ?init "refsOf kind s"] by (cases ?res) simp
  then show ?thesis
    by (simp add: Watch_ptr_def watchersOf_def Let_def refsOf_def)
qed

lemma Watch_ptr_fields [simp]:
  "heap (Watch_ptr kind ns s) = heap s"
  "h_objects (Watch_ptr kind ns s) = h_objects s"
  by (simp_all add: Watch_ptr_def Let_def)

lemma keyInNamespace_own:
  "keyInNamespace (objectKey ns name) ns \<longleftrightarrow> name \<noteq> []"
  by (auto simp: keyInNamespace_def objectKey_def nth_append)

lemma snapshot_complete:
  assumes "kindKeyed kind s" and "(key, obj) \<in> set (refsOf kind s)"
    and "GetNamespace (load (heap s) obj) = ns" and "GetName (load (heap s) obj) \<noteq> []"
  shows "event Added obj \<in> set (snapshotEvents kind ns s)"
proof -
  from assms(1,2) have "key = objKey (load (heap s) obj)"
    by (auto simp: kindKeyed_def list_all_iff)
  then have "keyInNamespace key ns"
    using assms(3,4) by (simp add: objKey_def keyInNamespace_own)
  with assms(2) show ?thesis
    by (force simp: snapshotEvents_def)
qed

lemma watchersOf_fields [simp]:
  "watchersOf kind ns (s\<lparr>h_objects := m\<rparr>) = watchersOf kind ns s"
  "watchersOf kind ns (s\<lparr>heap := h\<rparr>) = watchersOf kind ns s"
  by (simp_all add: watchersOf_def)

lemma stamped_key [simp]:
  "GetKind (SetResourceVersion v obj) = GetKind obj"
  "GetNamespace (SetResourceVersion v obj) = GetNamespace obj"
  "GetName (SetResourceVersion v obj) = GetName obj"
  "GetKind (SetCreationTimestamp ts obj) = GetKind obj"
  "GetNamespace (SetCreationTimestamp ts obj) = GetNamespace obj"
  "GetName (SetCreationTimestamp ts obj) = GetName obj"
  by (cases obj; simp add: GetKind_def GetNamespace_def GetName_def)+

lemma Create_ptr_notifies:
  assumes "Create_ptr now1 now2 obj s = Inr s'"
    and "GetKind (load (heap s) obj) = kind" and "GetNamespace (load (heap s) obj) = ns"
  shows "watchersOf kind ns s' = map (trySend_ptr (event Added obj)) (watchersOf kind ns s)"
    and "load (heap s') obj
           = SetCreationTimestamp now2 (SetResourceVersion (FormatInt now1) (load (heap s) obj))"
    and "Get_ptr kind ns (GetName (load (heap s) obj)) s' = Inr obj"
proof -
  let ?h1 = "put obj (SetResourceVersion (FormatInt now1) (load (heap s) obj)) (heap s)"
  let ?h2 = "put obj (SetCreationTimestamp now2 (load ?h1 obj)) ?h1"
  let ?m = "case h_objects s (GetKind (load (heap s) obj)) of None \<Rightarrow> [] | Some m \<Rightarrow> m"
  let ?key = "objectKey (GetNamespace (load (heap s) obj)) (GetName (load (heap s) obj))"
  let ?pre = "s\<lparr>heap := ?h2, h_objects := (h_objects s)(GetKind (load (heap s) obj) \<mapsto>
                 AList.update ?key obj ?m)\<rparr>"
  from assms(1) have s': "s' = notifyWatchers_ptr Added obj ?pre"
    by (auto simp: Create_ptr_def Let_def split: if_splits)
  have l: "load ?h2 obj
      = SetCreationTimestamp now2 (SetResourceVersion (FormatInt now1) (load (heap s) obj))"
    by (cases obj) simp_all
  have k: "GetKind (load (heap ?pre) obj) = kind" "GetNamespace (load (heap ?pre) obj) = ns"
    using assms(2,3) by (simp_all add: l del: load_put_same)
  from notifyWatchers_ptr_watchersOf(1) [OF k, of Added]
  show "watchersOf kind ns s' = map (trySend_ptr (event Added obj)) (watchersOf kind ns s)"
    unfolding s' by simp
  show "load (heap s') obj
           = SetCreationTimestamp now2 (SetResourceVersion (FormatInt now1) (load (heap s) obj))"
    unfolding s' using l by simp
  show "Get_ptr kind ns (GetName (load (heap s) obj)) s' = Inr obj"
    unfolding s' using assms(2,3) by (simp add: Get_ptr_def update_conv')
qed

lemma Update_ptr_notifies:
  assumes "Update_ptr now obj s = Inr s'"
    and "GetKind (load (heap s) obj) = kind" and "GetNamespace (load (heap s) obj) = ns"
  shows "watchersOf kind ns s' = map (trySend_ptr (event Modified obj)) (watchersOf kind ns s)"
    and "load (heap s') obj = SetResourceVersion (FormatInt now) (load (heap s) obj)"
    and "Get_ptr kind ns (GetName (load (heap s) obj)) s' = Inr obj"
proof -
  let ?h1 = "put obj (SetResourceVersion (FormatInt now) (load (heap s) obj)) (heap s)"
  let ?key = "objectKey (GetNamespace (load (heap s) obj)) (GetName (load (heap s) obj))"
  from assms(1) obtain m where
    s': "s' = notifyWatchers_ptr Modified obj
               (s\<lparr>heap := ?h1, h_objects := (h_objects s)(GetKind (load (heap s) obj) \<mapsto>
                    AList.update ?key obj m)\<rparr>)"
    by (auto simp: Update_ptr_def Let_def split: option.splits if_splits)
  let ?pre = "s\<lparr>heap := ?h1, h_objects := (h_objects s)(GetKind (load (heap s) obj) \<mapsto>
                    AList.update ?key obj m)\<rparr>"
  have k: "GetKind (load (heap ?pre) obj) = kind" "GetNamespace (load (heap ?pre) obj) = ns"
    using assms(2,3) by simp_all
  from notifyWatchers_ptr_watchersOf(1) [OF k, of Modified]
  show "watchersOf kind ns s' = map (trySend_ptr (event Modified obj)) (watchersOf kind ns s)"
    unfolding s' by simp
  show "load (heap s') obj = SetResourceVersion (FormatInt now) (load (heap s) obj)"
    unfolding s' by simp
  show "Get_ptr kind ns (GetName (load (heap s) obj)) s' = Inr obj"
    unfolding s' using assms(2,3) by (simp add: Get_ptr_def update_conv')
qed

lemma Delete_ptr_notifies:
  assumes "Delete_ptr kind ns name s = Inr s'"
    and "Get_ptr kind ns name s = Inr obj"
    and "GetKind (load (heap s) obj) = kind" and "GetNamespace (load (heap s) obj) = ns"
  shows "watchersOf kind ns s' = map (trySend_ptr (event Deleted obj)) (watchersOf kind ns s)"
    and "heap s' = heap s"
proof -
  from assms(1,2) have w: "h_watchers s' = h_watchers (notifyWatchers_ptr Deleted obj s)"
    and h: "heap s' = heap (notifyWatchers_ptr Deleted obj s)"
    by (auto simp: Delete_ptr_def Get_ptr_def Let_def split: option.splits)
  from w have "watchersOf kind ns s' = watchersOf kind ns (notifyWatchers_ptr Deleted obj s)"
    by (simp add: watchersOf_def)
  with notifyWatchers_ptr_watchersOf(1) [OF assms(3,4), of Deleted]
  show "watchersOf kind ns s' = map (trySend_ptr (event Deleted obj)) (watchersOf kind ns s)"
    by simp
  from h show "heap s' = heap s" by simp
qed

text \<open>
  C6, as stated, fails for the empty namespace. \<open>Watch\<close> applies the prefix test of
  \<open>List\<close> without the case \<open>namespace == ""\<close>, and \<open>notifyWatchers\<close> looks watchers up
  under the object's own namespace. With the pod \<open>default/p1\<close> stored, \<open>List\<close> with the
  empty namespace returns it, but a watcher opened with the empty namespace (buffer of
  100) is sent no \<open>Added\<close> event for it, and none when \<open>default/p2\<close> is created
  afterwards.
\<close>

theorem C6_empty_namespace_counterexample:
  "List_ptr ''Pod'' [] podStore = [PodRef 0]
   \<and> load (heap podStore) (PodRef 0) = PodObj (plainPod ''default'' ''p1'' ''1000'' 1000)
   \<and> watchersOf ''Pod'' [] (Watch_ptr ''Pod'' [] podStore)
     = [\<lparr>rw_events = [], rw_cap = 100, rw_kind = ''Pod'', rw_ns = []\<rparr>]
   \<and> Get_ptr ''Pod'' ''default'' ''p2''
        (projr (Create_ptr 2000 2001 (PodRef 1) (Watch_ptr ''Pod'' [] podStore)))
     = Inr (PodRef 1)
   \<and> load (heap (projr (Create_ptr 2000 2001 (PodRef 1) (Watch_ptr ''Pod'' [] podStore)))) (PodRef 1)
     = PodObj (plainPod ''default'' ''p2'' ''2000'' 2001)
   \<and> watchersOf ''Pod'' []
        (projr (Create_ptr 2000 2001 (PodRef 1) (Watch_ptr ''Pod'' [] podStore)))
     = [\<lparr>rw_events = [], rw_cap = 100, rw_kind = ''Pod'', rw_ns = []\<rparr>]"
  by (simp add: List_ptr_def Watch_ptr_def watchersOf_def podStore_def watchMemory_def
      keyInNamespace_def Let_def Create_ptr_def Get_ptr_def notifyWatchers_ptr_def
      GetKind_def GetName_def GetNamespace_def objectKey_def plainPod_def emptyMeta_def
      FormatInt_def digits.simps digit_char_def)

text \<open>
  C6 (amended). \<open>Watch(kind, ns)\<close> appends a new watcher to those registered under
  \<open>kind/ns\<close> and changes nothing else; its channel holds, in map order and up to the
  buffer size, an \<open>Added\<close> event with the stored pointer for every entry of the kind
  whose key passes the namespace test. When the keys of the kind are namespace/name of
  the objects and the snapshot fits the buffer, this includes every stored object whose
  namespace equals \<open>ns\<close> and whose name is not empty (the empty \<open>ns\<close> selects the
  objects with an empty namespace, not all namespaces). Afterwards every successful
  \<open>Create\<close>, \<open>Update\<close> and \<open>Delete\<close> of an object of that kind whose namespace equals
  \<open>ns\<close> appends an \<open>Added\<close>, \<open>Modified\<close> or \<open>Deleted\<close> event with the pointer of the
  object to the channel of every watcher under \<open>kind/ns\<close> that has room, behind the
  events already there. An event carries the pointer, not a copy: after \<open>Create\<close> the
  pointer shows the object as stamped by \<open>Create\<close>, after \<open>Update\<close> as re-stamped by
  \<open>Update\<close>, and \<open>Delete\<close> leaves the object as it was.
\<close>

theorem C6_watch_delivery:
  "watchersOf kind ns (Watch_ptr kind ns s)
     = watchersOf kind ns s
       @ [\<lparr>rw_events = take (h_WatchBufferSize s) (snapshotEvents kind ns s),
           rw_cap = h_WatchBufferSize s, rw_kind = kind, rw_ns = ns\<rparr>]
   \<and> heap (Watch_ptr kind ns s) = heap s
   \<and> h_objects (Watch_ptr kind ns s) = h_objects s
   \<and> (kindKeyed kind s \<and> length (snapshotEvents kind ns s) \<le> h_WatchBufferSize s
        \<and> (key, obj) \<in> set (refsOf kind s)
        \<and> GetNamespace (load (heap s) obj) = ns \<and> GetName (load (heap s) obj) \<noteq> []
      \<longrightarrow> event Added obj \<in> set (rw_events (last (watchersOf kind ns (Watch_ptr kind ns s)))))
   \<and> (Create_ptr rvNow tsNow obj s = Inr s'
        \<and> GetKind (load (heap s) obj) = kind \<and> GetNamespace (load (heap s) obj) = ns
        \<and> i < length (watchersOf kind ns s)
        \<and> length (rw_events (watchersOf kind ns s ! i)) < rw_cap (watchersOf kind ns s ! i)
      \<longrightarrow> rw_events (watchersOf kind ns s' ! i)
            = rw_events (watchersOf kind ns s ! i) @ [event Added obj]
          \<and> load (heap s') obj
            = SetCreationTimestamp tsNow (SetResourceVersion (FormatInt rvNow) (load (heap s) obj)))
   \<and> (Update_ptr now obj s = Inr s'
        \<and> GetKind (load (heap s) obj) = kind \<and> GetNamespace (load (heap s) obj) = ns
        \<and> i < length (watchersOf kind ns s)
        \<and> length (rw_events (watchersOf kind ns s ! i)) < rw_cap (watchersOf kind ns s ! i)
      \<longrightarrow> rw_events (watchersOf kind ns s' ! i)
            = rw_events (watchersOf kind ns s ! i) @ [event Modified obj]
          \<and> load (heap s') obj = SetResourceVersion (FormatInt now) (load (heap s) obj))
   \<and> (Delete_ptr kind ns name s = Inr s' \<and> Get_ptr kind ns name s = Inr obj
        \<and> GetKind (load (heap s) obj) = kind \<and> GetNamespace (load (heap s) obj) = ns
        \<and> i < length (watchersOf kind ns s)
        \<and> length (rw_events (watchersOf kind ns s ! i)) < rw_cap (watchersOf kind ns s ! i)
      \<longrightarrow> rw_events (watchersOf kind ns s' ! i)
            = rw_events (watchersOf kind ns s ! i) @ [event Deleted obj]
          \<and> heap s' = heap s)"
proof (intro conjI impI)
  show "watchersOf kind ns (Watch_ptr kind ns s)
     = watchersOf kind ns s
       @ [\<lparr>rw_events = take (h_WatchBufferSize s) (snapshotEvents kind ns s),
           rw_cap = h_WatchBufferSize s, rw_kind = kind, rw_ns = ns\<rparr>]"
    by (rule Watch_ptr_snapshot)
next
  show "heap (Watch_ptr kind ns s) = heap s" by simp
next
  show "h_objects (Watch_ptr kind ns s) = h_objects s" by simp
next
  assume a: "kindKeyed kind s \<and> length (snapshotEvents kind ns s) \<le> h_WatchBufferSize s
        \<and> (key, obj) \<in> set (refsOf kind s)
        \<and> GetNamespace (load (heap s) obj) = ns \<and> GetName (load (heap s) obj) \<noteq> []"
  then have "event Added obj \<in> set (snapshotEvents kind ns s)"
    using snapshot_complete by blast
  with a show "event Added obj \<in> set (rw_events (last (watchersOf kind ns (Watch_ptr kind ns s))))"
    by (simp add: Watch_ptr_snapshot)
next
  assume a: "Create_ptr rvNow tsNow obj s = Inr s'
        \<and> GetKind (load (heap s) obj) = kind \<and> GetNamespace (load (heap s) obj) = ns
        \<and> i < length (watchersOf kind ns s)
        \<and> length (rw_events (watchersOf kind ns s ! i)) < rw_cap (watchersOf kind ns s ! i)"
  then have "watchersOf kind ns s' = map (trySend_ptr (event Added obj)) (watchersOf kind ns s)"
    using Create_ptr_notifies(1) by blast
  with a show "rw_events (watchersOf kind ns s' ! i)
            = rw_events (watchersOf kind ns s ! i) @ [event Added obj]"
    by (simp add: trySend_ptr_room)
  from a show "load (heap s') obj
            = SetCreationTimestamp tsNow (SetResourceVersion (FormatInt rvNow) (load (heap s) obj))"
    using Create_ptr_notifies(2) by blast
next
  assume a: "Update_ptr now obj s = Inr s'
        \<and> GetKind (load (heap s) obj) = kind \<and> GetNamespace (load (heap s) obj) = ns
        \<and> i < length (watchersOf kind ns s)
        \<and> length (rw_events (watchersOf kind ns s ! i)) < rw_cap (watchersOf kind ns s ! i)"
  then have "watchersOf kind ns s' = map (trySend_ptr (event Modified obj)) (watchersOf kind ns s)"
    using Update_ptr_notifies(1) by blast
  with a show "rw_events (watchersOf kind ns s' ! i)
            = rw_events (watchersOf kind ns s ! i) @ [event Modified obj]"
    by (simp add: trySend_ptr_room)
  from a show "load (heap s') obj = SetResourceVersion (FormatInt now) (load (heap s) obj)"
    using Update_ptr_notifies(2) by blast
next
  assume a: "Delete_ptr kind ns name s = Inr s' \<and> Get_ptr kind ns name s = Inr obj
        \<and> GetKind (load (heap s) obj) = kind \<and> GetNamespace (load (heap s) obj) = ns
        \<and> i < length (watchersOf kind ns s)
        \<and> length (rw_events (watchersOf kind ns s ! i)) < rw_cap (watchersOf kind ns s ! i)"
  then have "watchersOf kind ns s' = map (trySend_ptr (event Deleted obj)) (watchersOf kind ns s)"
    using Delete_ptr_notifies(1) by blast
  with a show "rw_events (watchersOf kind ns s' ! i)
            = rw_events (watchersOf kind ns s ! i) @ [event Deleted obj]"
    by (simp add: trySend_ptr_room)
  from a show "heap s' = heap s"
    using Delete_ptr_notifies(2) by blast
qed
end
